theory Spec2Isabelle
  imports Complex_Main "HOL-Library.List_Lexorder" "HOL-Library.Char_ord"
begin

section \<open>Strings as Python sees them (ASCII text)\<close>

text \<open>
  Strings are lists of characters. The model covers ASCII text: \<open>str.lower\<close>,
  \<open>str.upper\<close>, \<open>str.strip\<close> and the regular-expression classes act on the ASCII
  letters, digits and white space as Python does.
\<close>

definition ascii_uppercase :: string where
  "ascii_uppercase = ''ABCDEFGHIJKLMNOPQRSTUVWXYZ''"

definition ascii_lowercase :: string where
  "ascii_lowercase = ''abcdefghijklmnopqrstuvwxyz''"

definition py_lower_char :: "char \<Rightarrow> char" where
  "py_lower_char c =
     (case map_of (zip ascii_uppercase ascii_lowercase) c of Some d \<Rightarrow> d | None \<Rightarrow> c)"

definition py_upper_char :: "char \<Rightarrow> char" where
  "py_upper_char c =
     (case map_of (zip ascii_lowercase ascii_uppercase) c of Some d \<Rightarrow> d | None \<Rightarrow> c)"

definition py_lower :: "string \<Rightarrow> string" where
  "py_lower s = map py_lower_char s"

definition py_upper :: "string \<Rightarrow> string" where
  "py_upper s = map py_upper_char s"

text \<open>\<open>str.startswith\<close> and the substring test \<open>keyword in text\<close>.\<close>

fun startswith :: "string \<Rightarrow> string \<Rightarrow> bool" where
  "startswith s [] = True"
| "startswith [] (k # ks) = False"
| "startswith (c # cs) (k # ks) = (c = k \<and> startswith cs ks)"

fun py_in :: "string \<Rightarrow> string \<Rightarrow> bool" where
  "py_in kw [] = (kw = [])"
| "py_in kw (c # cs) = (startswith (c # cs) kw \<or> py_in kw cs)"

text \<open>
  The characters for which \<open>str.isspace\<close> holds, which are also the characters the
  regular-expression class \<open>\s\<close> matches: tab, line feed, vertical tab, form feed, carriage
  return, the four separators 0x1C to 0x1F, and the space.
\<close>

definition whitespace :: string where
  "whitespace =
     [CHR 0x09, CHR 0x0A, CHR 0x0B, CHR 0x0C, CHR 0x0D, CHR 0x1C, CHR 0x1D, CHR 0x1E, CHR 0x1F,
      CHR '' '']"

definition is_space :: "char \<Rightarrow> bool" where
  "is_space c = (c \<in> set whitespace)"

definition py_strip :: "string \<Rightarrow> string" where
  "py_strip s = rev (dropWhile is_space (rev (dropWhile is_space s)))"

text \<open>
  The characters the regular-expression class \<open>\w\<close> matches: the letters, the digits and
  the underscore (characters are ordered by their codes).
\<close>

definition char_between :: "char \<Rightarrow> char \<Rightarrow> char \<Rightarrow> bool" where
  "char_between lo hi c = (lo \<le> c \<and> c \<le> hi)"

definition is_word_char :: "char \<Rightarrow> bool" where
  "is_word_char c =
     (c = CHR ''_'' \<or> char_between (CHR ''0'') (CHR ''9'') c \<or>
      char_between (CHR ''A'') (CHR ''Z'') c \<or> char_between (CHR ''a'') (CHR ''z'') c)"

section \<open>The regular expressions of the sources\<close>

text \<open>
  The patterns the sources pass to \<open>re.sub\<close> are sequences of these atoms: a literal
  character, \<open>\s*\<close>, \<open>\s+\<close>, the word boundary \<open>\b\<close> and the end anchor \<open>$\<close>.
\<close>

datatype atom = Lit char | SpaceStar | SpacePlus | WordBoundary | EndAnchor

definition lits :: "string \<Rightarrow> atom list" where
  "lits s = map Lit s"

text \<open>
  \<open>\b\<close> holds between a word character and a character that is none (or the start or end
  of the string). \<open>prev\<close> is the character before the position, \<open>None\<close> at the start.
\<close>

definition at_word_boundary :: "char option \<Rightarrow> string \<Rightarrow> bool" where
  "at_word_boundary prev s =
     ((case prev of None \<Rightarrow> False | Some c \<Rightarrow> is_word_char c)
        \<noteq> (case s of [] \<Rightarrow> False | c # _ \<Rightarrow> is_word_char c))"

text \<open>\<open>$\<close> holds at the end of the string and just before a line feed that ends it.\<close>

definition at_end :: "string \<Rightarrow> bool" where
  "at_end s = (s = [] \<or> s = [CHR 0x0A])"

text \<open>
  Matching a pattern at one position: the number of characters the match consumes, the
  repetitions greedy with backtracking, as the \<open>re\<close> module matches.
\<close>

fun re_match :: "atom list \<Rightarrow> char option \<Rightarrow> string \<Rightarrow> nat option" where
  "re_match [] prev s = Some 0"
| "re_match (Lit a # p) prev [] = None"
| "re_match (Lit a # p) prev (c # cs) =
     (if c = a then map_option Suc (re_match p (Some c) cs) else None)"
| "re_match (SpaceStar # p) prev [] = re_match p prev []"
| "re_match (SpaceStar # p) prev (c # cs) =
     (if is_space c then
        (case re_match (SpaceStar # p) (Some c) cs of
           Some n \<Rightarrow> Some (Suc n)
         | None \<Rightarrow> re_match p prev (c # cs))
      else re_match p prev (c # cs))"
| "re_match (SpacePlus # p) prev [] = None"
| "re_match (SpacePlus # p) prev (c # cs) =
     (if is_space c then map_option Suc (re_match (SpaceStar # p) (Some c) cs) else None)"
| "re_match (WordBoundary # p) prev s =
     (if at_word_boundary prev s then re_match p prev s else None)"
| "re_match (EndAnchor # p) prev s =
     (if at_end s then re_match p prev s else None)"

text \<open>
  \<open>re.sub(pattern, repl, s)\<close>: the string is scanned from the left, every match is replaced
  and the scan goes on after it. None of the patterns of the sources matches the empty
  string; a position where the match is empty is passed as one with no match.
\<close>

fun re_sub_from :: "atom list \<Rightarrow> string \<Rightarrow> char option \<Rightarrow> string \<Rightarrow> string" where
  "re_sub_from p repl prev [] = []"
| "re_sub_from p repl prev (c # cs) =
     (case re_match p prev (c # cs) of
        Some (Suc n) \<Rightarrow> repl @ re_sub_from p repl (Some ((c # cs) ! n)) (drop n cs)
      | _ \<Rightarrow> c # re_sub_from p repl (Some c) cs)"

definition re_sub :: "atom list \<Rightarrow> string \<Rightarrow> string \<Rightarrow> string" where
  "re_sub p repl s = re_sub_from p repl None s"

section \<open>config/cancel\_categories.py\<close>

text \<open>The dictionary \<open>CANCEL_CATEGORIES\<close> in insertion order, and \<open>CATEGORY_PRIORITY\<close>.\<close>

definition CANCEL_CATEGORIES :: "(string \<times> string list) list" where
  "CANCEL_CATEGORIES =
    [(''CUSTOMER_INITIATED'',
        [''customer cancel'', ''client cancel'', ''cust canceled'', ''cancelled by customer'',
         ''cstmr declined'', ''customer declined'']),
     (''FIXED_ITSELF'',
        [''appliance starting working'', ''started working'', ''fixed itself'',
         ''working after'', ''unplugging'']),
     (''SCHEDULING_CONFLICT'',
        [''reschedule'', ''schedule conflict'', ''not available'', ''changed appmnt'',
         ''chngd appmnt'']),
     (''PAYMENT_ISSUE'',
        [''payment'', ''credit card'', ''cc for service'', ''service'']),
     (''NO_SHOW'',
        [''no show'', ''not home'', ''customer not present'', ''nobody home'',
         ''not at home'']),
     (''PRICE_TOO_HIGH'',
        [''too expensive'', ''cost too high'', ''price too high'', ''cheaper elsewhere'',
         ''not worth'']),
     (''CHANGED_MIND'',
        [''changed mind'', ''decided against'', ''decided not to'', ''will try later'',
         ''will fix later'']),
     (''OTHER'', [])]"

definition CATEGORY_PRIORITY :: "string list" where
  "CATEGORY_PRIORITY =
    [''CUSTOMER_INITIATED'', ''PRICE_TOO_HIGH'', ''NO_SHOW'', ''SCHEDULING_CONFLICT'',
     ''CHANGED_MIND'', ''FIXED_ITSELF'', ''PAYMENT_ISSUE'', ''OTHER'']"

section \<open>analysis/text\_mining.py: extract\_cancellation\_reason\<close>

text \<open>
  The inner loop: the number of keywords of one category that occur in the (lower-cased)
  description.
\<close>

definition keyword_hits :: "string list \<Rightarrow> string \<Rightarrow> nat" where
  "keyword_hits keywords description =
     length (filter (\<lambda>keyword. py_in (py_lower keyword) description) keywords)"

text \<open>
  The dictionary \<open>category_matches\<close> the outer loop builds: one entry per category with a
  non-empty keyword list and at least one hit, in the order of \<open>CANCEL_CATEGORIES\<close>.
\<close>

definition category_matches_in ::
  "(string \<times> string list) list \<Rightarrow> string \<Rightarrow> (string \<times> nat) list" where
  "category_matches_in table description =
     [(category, keyword_hits keywords description).
        (category, keywords) \<leftarrow> table,
        keywords \<noteq> [], 0 < keyword_hits keywords description]"

definition category_matches :: "string \<Rightarrow> (string \<times> nat) list" where
  "category_matches description = category_matches_in CANCEL_CATEGORIES description"

text \<open>
  \<open>CANCEL_CATEGORIES[category]\<close>; the categories looked up are keys of the table.
\<close>

definition keywords_of :: "string \<Rightarrow> string list" where
  "keywords_of category =
     (case map_of CANCEL_CATEGORIES category of Some keywords \<Rightarrow> keywords | None \<Rightarrow> [])"

definition confidence_of :: "string \<Rightarrow> nat \<Rightarrow> rat" where
  "confidence_of category matches =
     min (of_nat matches / of_nat (length (keywords_of category))) 1"

text \<open>
  The loop over \<open>CATEGORY_PRIORITY\<close>: the first category of the list that is a key of
  \<open>category_matches\<close> is returned with its confidence; \<open>None\<close> when the loop ends without
  returning.
\<close>

fun priority_pick :: "(string \<times> nat) list \<Rightarrow> string list \<Rightarrow> (string \<times> rat) option" where
  "priority_pick cm [] = None"
| "priority_pick cm (category # rest) =
     (case map_of cm category of
        Some matches \<Rightarrow> Some (category, confidence_of category matches)
      | None \<Rightarrow> priority_pick cm rest)"

text \<open>
  The description is \<open>None\<close> for a missing value (\<open>pd.isna\<close>). The result is the pair
  (reason category, confidence).
\<close>

definition extract_cancellation_reason :: "string option \<Rightarrow> string \<times> rat" where
  "extract_cancellation_reason description =
     (case description of
        None \<Rightarrow> (''UNKNOWN'', 0)
      | Some text \<Rightarrow>
          if text = [] then (''UNKNOWN'', 0)
          else
            let cm = category_matches (py_lower text) in
            if cm = [] then (''OTHER'', 0)
            else
              (case (if 1 < length cm then priority_pick cm CATEGORY_PRIORITY else None) of
                 Some result \<Rightarrow> result
               | None \<Rightarrow>
                   (let category = fst (hd cm)
                    in (category, confidence_of category (snd (hd cm))))))"

text \<open>The number of keywords of a category that occur in a description, as the code counts them.\<close>

definition category_hits :: "string \<Rightarrow> string \<Rightarrow> nat" where
  "category_hits category text = keyword_hits (keywords_of category) (py_lower text)"

section \<open>config/mapping.py\<close>

text \<open>\<open>TECH_MAPPING\<close> (device name to technician code) and its reverse.\<close>

definition TECH_MAPPING :: "(string \<times> string) list" where
  "TECH_MAPPING =
     [(''James'', ''JS''), (''Joe'', ''JD''), (''Bianca'', ''BB''), (''Ricardo (NEW)'', ''RR''),
      (''Shane'', ''SS''), (''Porter'', ''AP''), (''Dane'', ''DM''), (''Sean'', ''SF'')]"

definition TECH_REVERSE_MAPPING :: "(string \<times> string) list" where
  "TECH_REVERSE_MAPPING = map (\<lambda>(k, v). (v, k)) TECH_MAPPING"

section \<open>data\_processing/cleaner.py\<close>

subsection \<open>standardize\_address\<close>

definition abbrev_map :: "(string \<times> string) list" where
  "abbrev_map =
     [(''STREET'', ''ST''), (''AVENUE'', ''AVE''), (''BOULEVARD'', ''BLVD''), (''DRIVE'', ''DR''),
      (''LANE'', ''LN''), (''ROAD'', ''RD''), (''COURT'', ''CT''), (''CIRCLE'', ''CIR''),
      (''PLACE'', ''PL''), (''HIGHWAY'', ''HWY''), (''APARTMENT'', ''APT''), (''SUITE'', ''STE''),
      (''CALIFORNIA'', ''CA'')]"

text \<open>
  One turn of the loop over \<open>abbrev_map.items()\<close>: the full word gives way to the
  abbreviation, then the abbreviation followed by a period loses the period.
\<close>

definition abbreviate :: "string \<times> string \<Rightarrow> string \<Rightarrow> string" where
  "abbreviate entry address =
     (case entry of (full, abbr) \<Rightarrow>
        re_sub (WordBoundary # lits abbr @ [Lit CHR ''.'']) abbr
          (re_sub (WordBoundary # lits full @ [WordBoundary]) abbr address))"

text \<open>The address is \<open>None\<close> for a missing value (\<open>pd.isna\<close>).\<close>

definition standardize_address :: "string option \<Rightarrow> string" where
  "standardize_address address_str =
     (case address_str of
        None \<Rightarrow> []
      | Some raw \<Rightarrow>
          if raw = [] then []
          else
            let address = py_upper (py_strip raw);
                address = fold abbreviate abbrev_map address;
                address = re_sub [SpacePlus] '' '' address;
                address = re_sub [Lit CHR '','', SpaceStar, Lit CHR '',''] '','' address;
                address = re_sub [Lit CHR ''.'', SpaceStar, Lit CHR ''.''] ''.'' address;
                address = re_sub (Lit CHR '','' # SpaceStar # lits ''USA'' @ [EndAnchor]) [] address
            in py_strip address)"

subsection \<open>match\_address\_confidence\<close>

text \<open>
  \<open>fuzz.token_sort_ratio\<close> belongs to the fuzzywuzzy library, not to this repository; it is
  the parameter \<open>token_sort_ratio\<close>, a score from 0 to 100. Confidences are rationals:
  \<open>ratio * 0.8\<close> is four fifths of the ratio.
\<close>

definition match_address_confidence ::
  "(string \<Rightarrow> string \<Rightarrow> int) \<Rightarrow> string option \<Rightarrow> string option \<Rightarrow> rat" where
  "match_address_confidence token_sort_ratio address1 address2 =
     (if address1 = None \<or> address2 = None \<or> address1 = Some [] \<or> address2 = Some [] then 0
      else
        let std_addr1 = standardize_address address1;
            std_addr2 = standardize_address address2
        in if std_addr1 = std_addr2 then 100
           else
             let ratio = of_int (token_sort_ratio std_addr1 std_addr2);
                 min_len = min (length std_addr1) (length std_addr2)
             in if min_len < 10 then ratio * (8 / 10) else ratio)"

subsection \<open>standardize\_tech\_code\<close>

definition tech_variations :: "(string \<times> string) list" where
  "tech_variations =
     [(''ROBERT'', ''RR''), (''RICK'', ''RR''), (''RICARDO'', ''RR''), (''JAMES'', ''JS''),
      (''JIM'', ''JS''), (''JOSEPH'', ''JD''), (''JOEY'', ''JD''), (''DANIEL'', ''DM''),
      (''DANNY'', ''DM''), (''SHANE'', ''SS''), (''SHAWN'', ''SF''), (''SEAN'', ''SF''),
      (''BIANCA'', ''BB''), (''ADAM'', ''AP''), (''PORTER'', ''AP'')]"

definition valid_codes :: "string list" where
  "valid_codes = map fst TECH_REVERSE_MAPPING @ map fst TECH_MAPPING"

text \<open>The code is \<open>None\<close> for a missing value (\<open>pd.isna\<close>).\<close>

definition standardize_tech_code :: "string option \<Rightarrow> string" where
  "standardize_tech_code tech_code =
     (case tech_code of
        None \<Rightarrow> ''UNKNOWN''
      | Some raw \<Rightarrow>
          if raw = [] then ''UNKNOWN''
          else
            let tech = py_upper (py_strip raw) in
            (case map_of tech_variations tech of
               Some code \<Rightarrow> code
             | None \<Rightarrow> if tech \<in> set valid_codes then tech else tech))"

section \<open>config/settings.py\<close>

definition GPS_MATCH_THRESHOLD :: rat where
  "GPS_MATCH_THRESHOLD = 8 / 10"

definition DEFAULT_TIME_WINDOW :: int where
  "DEFAULT_TIME_WINDOW = 30"

section \<open>data\_processing/integrator.py\<close>

text \<open>The exceptions the modelled functions raise.\<close>

datatype error = KeyError | ValueError | OverflowError

subsection \<open>map\_tech\_codes\_to\_devices\<close>

text \<open>
  The lambda applied to every value of the technician column; the value is \<open>None\<close> when it
  is missing (a missing value is no key of the dictionary).
\<close>

definition device_for :: "string option \<Rightarrow> string" where
  "device_for x =
     (case x of
        None \<Rightarrow> ''UNKNOWN''
      | Some code \<Rightarrow>
          if code \<in> set (map fst TECH_REVERSE_MAPPING)
          then (case map_of TECH_REVERSE_MAPPING code of Some d \<Rightarrow> d | None \<Rightarrow> ''UNKNOWN'')
          else ''UNKNOWN'')"

text \<open>
  The data frame is its list of rows; \<open>tech_col\<close> reads the technician column of a row. The
  result pairs every row with the value of the added column \<open>Device\<close>.
\<close>

definition map_tech_codes_to_devices :: "('row \<Rightarrow> string option) \<Rightarrow> 'row list \<Rightarrow> ('row \<times> string) list" where
  "map_tech_codes_to_devices tech_col df = map (\<lambda>row. (row, device_for (tech_col row))) df"

subsection \<open>match\_jobs\_to\_gps\_stops\<close>

text \<open>
  Timestamps are integers (nanoseconds, the resolution of a pandas timestamp), \<open>None\<close> for
  \<open>NaT\<close>. A job row has the columns the function reads; its other columns are the record's
  extension. A GPS row has the columns Device, Address, Start Time and End Time.
\<close>

record job_row =
  job_Device :: string
  job_Address :: "string option"
  job_FirstAppmnt :: "int option"

record gps_stop =
  stop_Device :: string
  stop_Address :: "string option"
  stop_StartTime :: "int option"
  stop_EndTime :: "int option"

text \<open>The five columns the function adds to a job row.\<close>

record gps_fields =
  GPS_StartTime :: "int option"
  GPS_EndTime :: "int option"
  GPS_Duration :: "rat option"
  GPS_Address :: "string option"
  GPS_MatchConfidence :: rat

text \<open>\<open>timedelta(minutes=n)\<close> in nanoseconds.\<close>

definition minutes :: "int \<Rightarrow> int" where
  "minutes n = n * 60000000000"

text \<open>The values the added columns start with, which an unmatched job keeps.\<close>

definition no_gps_match :: gps_fields where
  "no_gps_match =
     \<lparr>GPS_StartTime = None, GPS_EndTime = None, GPS_Duration = None,
      GPS_Address = Some [], GPS_MatchConfidence = 0\<rparr>"

text \<open>
  The stops of the device whose start time lies in the window; a comparison with \<open>NaT\<close> is
  false.
\<close>

definition device_stops :: "gps_stop list \<Rightarrow> string \<Rightarrow> int \<Rightarrow> int \<Rightarrow> gps_stop list" where
  "device_stops gps_df device time_window_start time_window_end =
     filter (\<lambda>stop. stop_Device stop = device \<and>
                (case stop_StartTime stop of
                   None \<Rightarrow> False
                 | Some t \<Rightarrow> time_window_start \<le> t \<and> t \<le> time_window_end))
       gps_df"

text \<open>
  The inner loop over the stops in the window, with the state
  \<open>(best_match, best_confidence)\<close>.
\<close>

fun best_match_loop ::
  "(gps_stop \<Rightarrow> rat) \<Rightarrow> gps_stop list \<Rightarrow> gps_stop option \<times> rat \<Rightarrow> gps_stop option \<times> rat" where
  "best_match_loop confidence_of_stop [] state = state"
| "best_match_loop confidence_of_stop (stop # rest) (best_match, best_confidence) =
     (let confidence = confidence_of_stop stop in
      if confidence > best_confidence \<and> confidence \<ge> GPS_MATCH_THRESHOLD * 100
      then best_match_loop confidence_of_stop rest (Some stop, confidence)
      else best_match_loop confidence_of_stop rest (best_match, best_confidence))"

text \<open>
  \<open>(End Time - Start Time).total_seconds() / 60\<close>, not a number when one of the times is
  missing.
\<close>

definition gps_duration :: "gps_stop \<Rightarrow> rat option" where
  "gps_duration stop =
     (case (stop_StartTime stop, stop_EndTime stop) of
        (Some s, Some e) \<Rightarrow> Some (of_int (e - s) / 1000000000 / 60)
      | _ \<Rightarrow> None)"

definition gps_fields_of :: "gps_stop \<Rightarrow> rat \<Rightarrow> gps_fields" where
  "gps_fields_of best_match best_confidence =
     \<lparr>GPS_StartTime = stop_StartTime best_match, GPS_EndTime = stop_EndTime best_match,
      GPS_Duration = gps_duration best_match, GPS_Address = stop_Address best_match,
      GPS_MatchConfidence = best_confidence\<rparr>"

text \<open>
  The body of the loop over the jobs, for one job; \<open>confidence\<close> is
  \<open>match_address_confidence\<close>.
\<close>

definition match_job ::
  "(string option \<Rightarrow> string option \<Rightarrow> rat) \<Rightarrow> int \<Rightarrow> gps_stop list \<Rightarrow> 'a job_row_scheme \<Rightarrow> gps_fields" where
  "match_job confidence time_window_minutes gps_df job =
     (if job_Device job = ''UNKNOWN'' then no_gps_match
      else
        (case job_FirstAppmnt job of
           None \<Rightarrow> no_gps_match
         | Some scheduled_time \<Rightarrow>
             let time_window_start = scheduled_time - minutes time_window_minutes;
                 time_window_end = scheduled_time + minutes time_window_minutes;
                 stops = device_stops gps_df (job_Device job) time_window_start time_window_end
             in if length stops = 0 then no_gps_match
                else
                  (case best_match_loop (\<lambda>stop. confidence (job_Address job) (stop_Address stop))
                          stops (None, 0) of
                     (Some best_match, best_confidence) \<Rightarrow> gps_fields_of best_match best_confidence
                   | (None, _) \<Rightarrow> no_gps_match)))"

definition match_jobs_with ::
  "(string option \<Rightarrow> string option \<Rightarrow> rat) \<Rightarrow> int \<Rightarrow> 'a job_row_scheme list \<Rightarrow> gps_stop list
     \<Rightarrow> ('a job_row_scheme \<times> gps_fields) list" where
  "match_jobs_with confidence time_window_minutes job_df gps_df =
     map (\<lambda>job. (job, match_job confidence time_window_minutes gps_df job)) job_df"

text \<open>
  The function of the source, with the library's \<open>token_sort_ratio\<close> as a parameter. Every
  job row is paired with its five added columns.
\<close>

definition match_jobs_to_gps_stops ::
  "(string \<Rightarrow> string \<Rightarrow> int) \<Rightarrow> 'a job_row_scheme list \<Rightarrow> gps_stop list \<Rightarrow> int
     \<Rightarrow> ('a job_row_scheme \<times> gps_fields) list" where
  "match_jobs_to_gps_stops token_sort_ratio job_df gps_df time_window_minutes =
     match_jobs_with (match_address_confidence token_sort_ratio) time_window_minutes job_df gps_df"

text \<open>
  The claim's words: the stops of the job's device whose start time lies in
  \<open>[T - W, T + W]\<close>, in the order of the GPS table; none for a job without a device or
  without an appointment time.
\<close>

definition in_window :: "int \<Rightarrow> int \<Rightarrow> string \<Rightarrow> gps_stop \<Rightarrow> bool" where
  "in_window T W device stop =
     (stop_Device stop = device \<and>
      (case stop_StartTime stop of
         None \<Rightarrow> False
       | Some t \<Rightarrow> T - minutes W \<le> t \<and> t \<le> T + minutes W))"

definition candidates :: "int \<Rightarrow> gps_stop list \<Rightarrow> 'a job_row_scheme \<Rightarrow> gps_stop list" where
  "candidates W gps_df job =
     (case job_FirstAppmnt job of
        None \<Rightarrow> []
      | Some T \<Rightarrow>
          if job_Device job = ''UNKNOWN'' then []
          else filter (in_window T W (job_Device job)) gps_df)"

text \<open>
  The spec's example: a job at time \<open>T\<close> with the default window, a stop of the same device
  and address 31 minutes later, a stop 29 minutes later with a token-sort ratio of 85 and
  a stop 10 minutes later with a ratio of 70.
\<close>

definition example_job :: job_row where
  "example_job =
     \<lparr>job_Device = ''James'', job_Address = Some ''1 OAK RD, COTATI'',
      job_FirstAppmnt = Some 1700000000000000000\<rparr>"

definition example_stop :: "string \<Rightarrow> int \<Rightarrow> gps_stop" where
  "example_stop address after =
     \<lparr>stop_Device = ''James'', stop_Address = Some address,
      stop_StartTime = Some (1700000000000000000 + minutes after),
      stop_EndTime = Some (1700000000000000000 + minutes (after + 45))\<rparr>"

definition example_token_sort_ratio :: "string \<Rightarrow> string \<Rightarrow> int" where
  "example_token_sort_ratio a b = (if b = ''1 OAK RD COTATI'' then 85 else 70)"

subsection \<open>merge\_sales\_with\_jobs\<close>

text \<open>
  A data frame is the list of its column names and the list of its rows. A row is a record
  with one field for each column the function reads or writes; the field of a column that
  the frame does not have carries no meaning. Amounts are rationals, \<open>None\<close> for a value
  that is not a number (\<open>NaN\<close>); the rounding of floating-point sums is not modelled.
\<close>

record 'r table =
  columns :: "string list"
  rows :: "'r list"

record sales_row =
  s_Technician :: string
  s_TechCode :: string
  s_InvoiceNumber :: string
  s_LaborSold :: "rat option"
  s_PartsSold :: "rat option"
  s_SCallSold :: "rat option"
  s_MerchandiseSold :: "rat option"
  s_TotalSale :: "rat option"

text \<open>
  A job row: the join keys, the revenue columns (the job side's own before the merge, the
  sales journal's after it), the three Type6 revenue columns, and the invoice number the
  exact merge adds. The other columns of a job are the record's extension.
\<close>

record jobs_row =
  j_TechCode :: string
  j_JobNumber :: string
  j_LaborSold :: "rat option"
  j_PartsSold :: "rat option"
  j_SCallSold :: "rat option"
  j_MerchandiseSold :: "rat option"
  j_TotalSale :: "rat option"
  j_TotalLaborInSale :: "rat option"
  j_TotalMaterialInSale :: "rat option"
  j_TotalMateriaInSale :: "rat option"
  j_InvoiceNumber :: "string option"

definition revenue_columns :: "string list" where
  "revenue_columns = [''LaborSold'', ''PartsSold'', ''SCallSold'', ''MerchandiseSold'', ''TotalSale'']"

text \<open>Reading and writing a revenue column by its name.\<close>

definition sales_value :: "string \<Rightarrow> sales_row \<Rightarrow> rat option" where
  "sales_value col s =
     (if col = ''LaborSold'' then s_LaborSold s
      else if col = ''PartsSold'' then s_PartsSold s
      else if col = ''SCallSold'' then s_SCallSold s
      else if col = ''MerchandiseSold'' then s_MerchandiseSold s
      else if col = ''TotalSale'' then s_TotalSale s
      else None)"

definition job_value :: "string \<Rightarrow> 'a jobs_row_scheme \<Rightarrow> rat option" where
  "job_value col j =
     (if col = ''LaborSold'' then j_LaborSold j
      else if col = ''PartsSold'' then j_PartsSold j
      else if col = ''SCallSold'' then j_SCallSold j
      else if col = ''MerchandiseSold'' then j_MerchandiseSold j
      else if col = ''TotalSale'' then j_TotalSale j
      else None)"

definition set_job_value :: "string \<Rightarrow> rat option \<Rightarrow> 'a jobs_row_scheme \<Rightarrow> 'a jobs_row_scheme" where
  "set_job_value col v j =
     (if col = ''LaborSold'' then j\<lparr>j_LaborSold := v\<rparr>
      else if col = ''PartsSold'' then j\<lparr>j_PartsSold := v\<rparr>
      else if col = ''SCallSold'' then j\<lparr>j_SCallSold := v\<rparr>
      else if col = ''MerchandiseSold'' then j\<lparr>j_MerchandiseSold := v\<rparr>
      else if col = ''TotalSale'' then j\<lparr>j_TotalSale := v\<rparr>
      else j)"

text \<open>The sum of a column as pandas takes it: values that are not a number are skipped.\<close>

definition amount :: "rat option \<Rightarrow> rat" where
  "amount v = (case v of None \<Rightarrow> 0 | Some x \<Rightarrow> x)"

definition column_sum :: "('r \<Rightarrow> rat option) \<Rightarrow> 'r list \<Rightarrow> rat" where
  "column_sum value rs = sum_list (map (\<lambda>r. amount (value r)) rs)"

text \<open>
  \<open>drop_duplicates(subset=..., keep='first')\<close>: a row is dropped when the key of an earlier
  row equals its key.
\<close>

fun drop_duplicates_from :: "('r \<Rightarrow> 'k) \<Rightarrow> 'k list \<Rightarrow> 'r list \<Rightarrow> 'r list" where
  "drop_duplicates_from key seen [] = []"
| "drop_duplicates_from key seen (r # rs) =
     (if key r \<in> set seen then drop_duplicates_from key seen rs
      else r # drop_duplicates_from key (key r # seen) rs)"

definition drop_duplicates :: "('r \<Rightarrow> 'k) \<Rightarrow> 'r list \<Rightarrow> 'r list" where
  "drop_duplicates key rs = drop_duplicates_from key [] rs"

definition sales_key :: "sales_row \<Rightarrow> string \<times> string" where
  "sales_key s = (s_TechCode s, s_InvoiceNumber s)"

text \<open>
  The first part of the function: the two column copies and the deduplication. The tests
  read \<open>sales_cols\<close>, the column index taken before any column is added.
\<close>

definition add_column :: "string \<Rightarrow> string list \<Rightarrow> string list" where
  "add_column col cols = (if col \<in> set cols then cols else cols @ [col])"

definition copy_technician_columns :: "string list \<Rightarrow> sales_row table \<Rightarrow> sales_row table" where
  "copy_technician_columns jobs_cols sales_df =
     (let sales_cols = columns sales_df;
          sales_df =
            (if ''TechCode'' \<in> set jobs_cols \<and> ''Technician'' \<in> set sales_cols \<and>
                ''TechCode'' \<notin> set sales_cols
             then \<lparr>columns = add_column ''TechCode'' (columns sales_df),
                   rows = map (\<lambda>s. s\<lparr>s_TechCode := py_upper (py_strip (s_Technician s))\<rparr>)
                            (rows sales_df)\<rparr>
             else sales_df);
          sales_df =
            (if ''Technician'' \<in> set jobs_cols \<and> ''TechCode'' \<in> set sales_cols \<and>
                ''Technician'' \<notin> set sales_cols
             then \<lparr>columns = add_column ''Technician'' (columns sales_df),
                   rows = map (\<lambda>s. s\<lparr>s_Technician := py_upper (py_strip (s_TechCode s))\<rparr>)
                            (rows sales_df)\<rparr>
             else sales_df)
      in sales_df)"

definition deduplicate_sales :: "string list \<Rightarrow> sales_row table \<Rightarrow> sales_row table" where
  "deduplicate_sales sales_cols sales_df =
     (if ''InvoiceNumber'' \<in> set sales_cols \<and> ''TechCode'' \<in> set sales_cols
      then sales_df\<lparr>rows := drop_duplicates sales_key (rows sales_df)\<rparr>
      else sales_df)"

text \<open>
  The row \<open>pd.merge(..., how='left')\<close> makes of a job and a sales row that matches it, and
  the row of a job that no sales row matches.
\<close>

definition joined_row :: "string list \<Rightarrow> 'a jobs_row_scheme \<Rightarrow> sales_row \<Rightarrow> 'a jobs_row_scheme" where
  "joined_row cols j s =
     fold (\<lambda>col r. set_job_value col (sales_value col s) r) cols
       (j\<lparr>j_InvoiceNumber := Some (s_InvoiceNumber s)\<rparr>)"

definition unmatched_row :: "string list \<Rightarrow> 'a jobs_row_scheme \<Rightarrow> 'a jobs_row_scheme" where
  "unmatched_row cols j =
     fold (\<lambda>col r. set_job_value col None r) cols (j\<lparr>j_InvoiceNumber := None\<rparr>)"

definition left_join ::
  "string list \<Rightarrow> 'a jobs_row_scheme list \<Rightarrow> sales_row list \<Rightarrow> 'a jobs_row_scheme list" where
  "left_join cols jobs sales =
     concat (map (\<lambda>j.
        (case filter (\<lambda>s. s_TechCode s = j_TechCode j \<and> s_InvoiceNumber s = j_JobNumber j) sales of
           [] \<Rightarrow> [unmatched_row cols j]
         | matches \<Rightarrow> map (joined_row cols j) matches)) jobs)"

text \<open>The exact path: the join on (TechCode, JobNumber = InvoiceNumber).\<close>

definition zero_type6 :: "string list \<Rightarrow> 'a jobs_row_scheme \<Rightarrow> 'a jobs_row_scheme" where
  "zero_type6 cols j =
     (let j = (if ''TotalLaborInSale'' \<in> set cols then j\<lparr>j_TotalLaborInSale := Some 0\<rparr> else j);
          j = (if ''TotalMaterialInSale'' \<in> set cols then j\<lparr>j_TotalMaterialInSale := Some 0\<rparr> else j);
          j = (if ''TotalMateriaInSale'' \<in> set cols then j\<lparr>j_TotalMateriaInSale := Some 0\<rparr> else j)
      in j)"

definition exact_merge ::
  "string list \<Rightarrow> 'a jobs_row_scheme table \<Rightarrow> sales_row table \<Rightarrow> error + 'a jobs_row_scheme table" where
  "exact_merge sales_cols jobs_df sales_df =
     (let jobs_rows = map (\<lambda>j. j\<lparr>j_JobNumber := py_strip (j_JobNumber j)\<rparr>) (rows jobs_df);
          sales_rows = map (\<lambda>s. s\<lparr>s_InvoiceNumber := py_strip (s_InvoiceNumber s)\<rparr>) (rows sales_df);
          merge_cols = filter (\<lambda>col. col \<in> set sales_cols) revenue_columns
      in if ''TechCode'' \<notin> set (columns sales_df) then Inl KeyError
         else
           let jobs_cols = filter (\<lambda>col. col \<notin> set revenue_columns) (columns jobs_df);
               jobs_rows = (if merge_cols \<noteq> [] then map (zero_type6 jobs_cols) jobs_rows else jobs_rows)
           in if ''TechCode'' \<notin> set jobs_cols then Inl KeyError
              else
                let merged_rows = left_join merge_cols jobs_rows sales_rows;
                    merged_cols =
                      jobs_cols
                      @ [if ''InvoiceNumber'' \<in> set jobs_cols then ''InvoiceNumber_sales''
                         else ''InvoiceNumber'']
                      @ merge_cols
                in if ''TotalMateriaInSale'' \<in> set merged_cols \<and>
                      ''TotalMaterialInSale'' \<notin> set merged_cols
                   then Inr \<lparr>columns = merged_cols @ [''TotalMaterialInSale''],
                             rows = map (\<lambda>j. j\<lparr>j_TotalMaterialInSale := j_TotalMateriaInSale j\<rparr>)
                                      merged_rows\<rparr>
                   else Inr \<lparr>columns = merged_cols, rows = merged_rows\<rparr>)"

text \<open>
  The fallback path: \<open>groupby('TechCode')\<close> with the sum of every revenue column the sales
  frame has (one row for each technician, sorted by the code; the sum skips values that
  are not a number), joined to the jobs on the technician code. An aggregation over no
  column at all raises (pandas: "No objects to concatenate").
\<close>

definition sales_summary :: "string list \<Rightarrow> sales_row list \<Rightarrow> (string \<times> (string \<times> rat) list) list" where
  "sales_summary agg_cols sales =
     map (\<lambda>tech.
        (tech, map (\<lambda>col. (col, column_sum (sales_value col) (filter (\<lambda>s. s_TechCode s = tech) sales)))
                 agg_cols))
       (sort (remdups (map s_TechCode sales)))"

definition summary_row :: "string list \<Rightarrow> 'a jobs_row_scheme \<Rightarrow> (string \<times> rat) list option \<Rightarrow> 'a jobs_row_scheme" where
  "summary_row agg_cols j totals =
     fold (\<lambda>col r.
        set_job_value col (case totals of None \<Rightarrow> None | Some t \<Rightarrow> map_of t col) r) agg_cols j"

definition technician_merge ::
  "string list \<Rightarrow> 'a jobs_row_scheme table \<Rightarrow> sales_row table \<Rightarrow> error + 'a jobs_row_scheme table" where
  "technician_merge sales_cols jobs_df sales_df =
     (let jobs_cols = filter (\<lambda>col. col \<notin> set revenue_columns) (columns jobs_df);
          agg_cols = filter (\<lambda>col. col \<in> set sales_cols) revenue_columns
      in if agg_cols = [] then Inl ValueError
         else
           let summary = sales_summary agg_cols (rows sales_df)
           in Inr \<lparr>columns = jobs_cols @ agg_cols,
                   rows = map (\<lambda>j. summary_row agg_cols j (map_of summary (j_TechCode j)))
                            (rows jobs_df)\<rparr>)"

definition merge_sales_with_jobs ::
  "'a jobs_row_scheme table \<Rightarrow> sales_row table \<Rightarrow> error + 'a jobs_row_scheme table" where
  "merge_sales_with_jobs jobs_df sales_df =
     (let jobs_cols = columns jobs_df;
          sales_cols = columns sales_df;
          sales_df = copy_technician_columns jobs_cols sales_df;
          sales_df = deduplicate_sales sales_cols sales_df
      in if ''JobNumber'' \<in> set jobs_cols \<and> ''InvoiceNumber'' \<in> set sales_cols
         then exact_merge sales_cols jobs_df sales_df
         else if ''TechCode'' \<in> set jobs_cols \<and> ''TechCode'' \<in> set sales_cols
         then technician_merge sales_cols jobs_df sales_df
         else Inr jobs_df)"

text \<open>
  The rows of the sales frame after the two column copies and \<open>drop_duplicates\<close>, as
  \<open>merge_sales_with_jobs\<close> holds them when it chooses its join path. The keys of these rows
  are the values of TechCode and InvoiceNumber as stored; the exact path trims
  InvoiceNumber afterwards, before \<open>pd.merge\<close>.
\<close>

definition deduplicated_sales_rows :: "string list \<Rightarrow> sales_row table \<Rightarrow> sales_row list" where
  "deduplicated_sales_rows jobs_cols sales_df =
     rows (deduplicate_sales (columns sales_df) (copy_technician_columns jobs_cols sales_df))"

text \<open>Example tables: a sales row with a labor amount, and a job row.\<close>

definition example_sale :: "string \<Rightarrow> string \<Rightarrow> rat \<Rightarrow> sales_row" where
  "example_sale tech invoice labor =
     \<lparr>s_Technician = [], s_TechCode = tech, s_InvoiceNumber = invoice,
      s_LaborSold = Some labor, s_PartsSold = None, s_SCallSold = None,
      s_MerchandiseSold = None, s_TotalSale = None\<rparr>"

definition example_jobs_row :: "string \<Rightarrow> string \<Rightarrow> rat option \<Rightarrow> string option \<Rightarrow> jobs_row" where
  "example_jobs_row tech number labor invoice =
     \<lparr>j_TechCode = tech, j_JobNumber = number, j_LaborSold = labor, j_PartsSold = None,
      j_SCallSold = None, j_MerchandiseSold = None, j_TotalSale = None,
      j_TotalLaborInSale = None, j_TotalMaterialInSale = None, j_TotalMateriaInSale = None,
      j_InvoiceNumber = invoice\<rparr>"

definition example_sales :: "sales_row table" where
  "example_sales =
     \<lparr>columns = [''TechCode'', ''InvoiceNumber'', ''LaborSold''],
      rows = [example_sale ''JS'' ''1001'' 50, example_sale ''JS'' ''1001'' 70,
              example_sale ''JD'' ''1001'' 10]\<rparr>"

definition example_jobs :: "string list \<Rightarrow> (string \<times> string) list \<Rightarrow> jobs_row table" where
  "example_jobs cols keys =
     \<lparr>columns = cols, rows = map (\<lambda>(tech, number). example_jobs_row tech number None None) keys\<rparr>"

text \<open>
  A sales frame with two rows of technician JS for the invoice 1001, the first with a
  leading space in the invoice number.
\<close>

definition example_sales_untrimmed :: "sales_row table" where
  "example_sales_untrimmed =
     \<lparr>columns = [''TechCode'', ''InvoiceNumber'', ''LaborSold''],
      rows = [example_sale ''JS'' '' 1001'' 50, example_sale ''JS'' ''1001'' 70]\<rparr>"

section \<open>analysis/metrics.py: parse\_duration\<close>

subsection \<open>The built-in float and int\<close>

text \<open>
  A float is a rational, an infinity or not a number; rounding to double precision is not
  modelled. \<open>float(s)\<close> reads, after trimming white space, an optional sign and then
  \<open>inf\<close>, \<open>infinity\<close> or \<open>nan\<close> in any case, or a decimal number with an optional
  exponent, whose digits may be grouped by single underscores; anything else is a
  \<open>ValueError\<close>.
\<close>

datatype pyfloat = Finite rat | PosInf | NegInf | NotANumber

text \<open>
  The white space \<open>float\<close> and \<open>int\<close> trim from an ASCII string: tab, line feed,
  vertical tab, form feed, carriage return and the space (not the separators 0x1C to 0x1F,
  which \<open>str.strip\<close> removes).
\<close>

definition number_whitespace :: string where
  "number_whitespace = [CHR 0x09, CHR 0x0A, CHR 0x0B, CHR 0x0C, CHR 0x0D, CHR '' '']"

definition number_strip :: "string \<Rightarrow> string" where
  "number_strip s =
     rev (dropWhile (\<lambda>c. c \<in> set number_whitespace)
            (rev (dropWhile (\<lambda>c. c \<in> set number_whitespace) s)))"

definition digit_value :: "char \<Rightarrow> nat option" where
  "digit_value c = map_of (zip ''0123456789'' [0, 1, 2, 3, 4, 5, 6, 7, 8, 9]) c"

text \<open>
  The rest of a digit part after its first digit: the value so far, the number of digits
  so far, and the text. The result ends with the text that is left.
\<close>

fun digitpart_rest :: "nat \<Rightarrow> nat \<Rightarrow> string \<Rightarrow> nat \<times> nat \<times> string" where
  "digitpart_rest v n [] = (v, n, [])"
| "digitpart_rest v n [c] =
     (case digit_value c of Some d \<Rightarrow> (10 * v + d, Suc n, []) | None \<Rightarrow> (v, n, [c]))"
| "digitpart_rest v n (c # c' # cs) =
     (case digit_value c of
        Some d \<Rightarrow> digitpart_rest (10 * v + d) (Suc n) (c' # cs)
      | None \<Rightarrow>
          (if c = CHR ''_'' then
             (case digit_value c' of
                Some d \<Rightarrow> digitpart_rest (10 * v + d) (Suc n) cs
              | None \<Rightarrow> (v, n, c # c' # cs))
           else (v, n, c # c' # cs)))"

definition digitpart :: "string \<Rightarrow> (nat \<times> nat \<times> string) option" where
  "digitpart s =
     (case s of
        [] \<Rightarrow> None
      | c # cs \<Rightarrow> (case digit_value c of Some d \<Rightarrow> Some (digitpart_rest d 1 cs) | None \<Rightarrow> None))"

text \<open>A number: digits with an optional fraction, or a fraction alone.\<close>

definition parse_number :: "string \<Rightarrow> (rat \<times> string) option" where
  "parse_number s =
     (case digitpart s of
        Some (i, _, rest) \<Rightarrow>
          (case rest of
             [] \<Rightarrow> Some (of_nat i, rest)
           | c # rest' \<Rightarrow>
               if c = CHR ''.'' then
                 (case digitpart rest' of
                    Some (f, k, rest'') \<Rightarrow> Some (of_nat i + of_nat f / 10 ^ k, rest'')
                  | None \<Rightarrow> Some (of_nat i, rest'))
               else Some (of_nat i, rest))
      | None \<Rightarrow>
          (case s of
             [] \<Rightarrow> None
           | c # rest \<Rightarrow>
               if c = CHR ''.'' then
                 (case digitpart rest of
                    Some (f, k, rest') \<Rightarrow> Some (of_nat f / 10 ^ k, rest')
                  | None \<Rightarrow> None)
               else None))"

text \<open>An optional sign: whether it is a minus, and the text after it.\<close>

definition parse_sign :: "string \<Rightarrow> bool \<times> string" where
  "parse_sign s =
     (case s of
        [] \<Rightarrow> (False, s)
      | c # cs \<Rightarrow> if c = CHR ''-'' then (True, cs) else if c = CHR ''+'' then (False, cs) else (False, s))"

text \<open>
  What follows the number: nothing, or an exponent that ends the text. The result is
  the power of ten.
\<close>

definition parse_exponent :: "string \<Rightarrow> int option" where
  "parse_exponent s =
     (case s of
        [] \<Rightarrow> Some 0
      | c # cs \<Rightarrow>
          if c = CHR ''e'' \<or> c = CHR ''E'' then
            (case parse_sign cs of
               (neg, digits) \<Rightarrow>
                 (case digitpart digits of
                    Some (x, _, []) \<Rightarrow> Some (if neg then - int x else int x)
                  | _ \<Rightarrow> None))
          else None)"

definition scale10 :: "rat \<Rightarrow> int \<Rightarrow> rat" where
  "scale10 m x = (if 0 \<le> x then m * 10 ^ nat x else m / 10 ^ nat (- x))"

definition py_float :: "string \<Rightarrow> error + pyfloat" where
  "py_float s =
     (case parse_sign (number_strip s) of
        (neg, u) \<Rightarrow>
          if py_lower u = ''inf'' \<or> py_lower u = ''infinity'' then Inr (if neg then NegInf else PosInf)
          else if py_lower u = ''nan'' then Inr NotANumber
          else
            (case parse_number u of
               None \<Rightarrow> Inl ValueError
             | Some (m, rest) \<Rightarrow>
                 (case parse_exponent rest of
                    None \<Rightarrow> Inl ValueError
                  | Some x \<Rightarrow> Inr (Finite (scale10 (if neg then - m else m) x)))))"

text \<open>
  The product with a positive constant, the sum, and \<open>int(x)\<close>, which truncates towards
  zero and raises on an infinity (\<open>OverflowError\<close>) and on not-a-number (\<open>ValueError\<close>).
\<close>

definition float_times :: "pyfloat \<Rightarrow> rat \<Rightarrow> pyfloat" where
  "float_times x k = (case x of Finite r \<Rightarrow> Finite (r * k) | other \<Rightarrow> other)"

definition float_plus :: "pyfloat \<Rightarrow> pyfloat \<Rightarrow> pyfloat" where
  "float_plus x y =
     (case x of
        Finite a \<Rightarrow> (case y of Finite b \<Rightarrow> Finite (a + b) | other \<Rightarrow> other)
      | NotANumber \<Rightarrow> NotANumber
      | PosInf \<Rightarrow> (case y of NegInf \<Rightarrow> NotANumber | NotANumber \<Rightarrow> NotANumber | _ \<Rightarrow> PosInf)
      | NegInf \<Rightarrow> (case y of PosInf \<Rightarrow> NotANumber | NotANumber \<Rightarrow> NotANumber | _ \<Rightarrow> NegInf))"

definition py_int :: "pyfloat \<Rightarrow> error + int" where
  "py_int x =
     (case x of
        Finite r \<Rightarrow> Inr (if 0 \<le> r then \<lfloor>r\<rfloor> else \<lceil>r\<rceil>)
      | NotANumber \<Rightarrow> Inl ValueError
      | _ \<Rightarrow> Inl OverflowError)"

text \<open>\<open>s.split(sep)\<close> for a one-character separator.\<close>

fun split_on :: "char \<Rightarrow> string \<Rightarrow> string list" where
  "split_on sep [] = [[]]"
| "split_on sep (c # cs) =
     (if c = sep then [] # split_on sep cs
      else (case split_on sep cs of [] \<Rightarrow> [[c]] | part # parts \<Rightarrow> (c # part) # parts))"

subsection \<open>parse\_duration\<close>

text \<open>
  \<open>map(float, parts)\<close> with its unpacking: the floats of the parts in order, or the first
  error.
\<close>

fun floats_of :: "string list \<Rightarrow> error + pyfloat list" where
  "floats_of [] = Inr []"
| "floats_of (part # parts) =
     (case py_float part of
        Inl e \<Rightarrow> Inl e
      | Inr x \<Rightarrow> (case floats_of parts of Inl e \<Rightarrow> Inl e | Inr xs \<Rightarrow> Inr (x # xs)))"

text \<open>The duration is \<open>None\<close> for a missing value (\<open>pd.isna\<close>).\<close>

definition parse_duration :: "string option \<Rightarrow> error + int" where
  "parse_duration duration_str =
     (case duration_str of
        None \<Rightarrow> Inr 0
      | Some s \<Rightarrow>
          if s = [] then Inr 0
          else
            let parts = split_on CHR '':'' s in
            if length parts = 3 then
              (case floats_of parts of
                 Inr [hrs, mins, secs] \<Rightarrow>
                   py_int (float_plus (float_plus (float_times hrs 3600) (float_times mins 60)) secs)
               | Inr _ \<Rightarrow> Inl ValueError
               | Inl e \<Rightarrow> Inl e)
            else if length parts = 2 then
              (case floats_of parts of
                 Inr [mins, secs] \<Rightarrow> py_int (float_plus (float_times mins 60) secs)
               | Inr _ \<Rightarrow> Inl ValueError
               | Inl e \<Rightarrow> Inl e)
            else
              (case py_float (hd parts) of Inl e \<Rightarrow> Inl e | Inr x \<Rightarrow> py_int x))"

subsection \<open>data\_processing/importers.py: convert\_duration\_to\_seconds\<close>

text \<open>
  The loader's function for the same strings. \<open>int(s)\<close> reads, after trimming, an optional
  sign and a digit part; the function catches every exception and returns 0.
\<close>

definition py_int_of_string :: "string \<Rightarrow> error + int" where
  "py_int_of_string s =
     (case parse_sign (number_strip s) of
        (neg, digits) \<Rightarrow>
          (case digitpart digits of
             Some (x, _, []) \<Rightarrow> Inr (if neg then - int x else int x)
           | _ \<Rightarrow> Inl ValueError))"

fun ints_of :: "string list \<Rightarrow> error + int list" where
  "ints_of [] = Inr []"
| "ints_of (part # parts) =
     (case py_int_of_string part of
        Inl e \<Rightarrow> Inl e
      | Inr x \<Rightarrow> (case ints_of parts of Inl e \<Rightarrow> Inl e | Inr xs \<Rightarrow> Inr (x # xs)))"

text \<open>The argument is \<open>None\<close> when it is no string.\<close>

definition convert_duration_to_seconds :: "string option \<Rightarrow> int" where
  "convert_duration_to_seconds duration_str =
     (case duration_str of
        None \<Rightarrow> 0
      | Some s \<Rightarrow>
          (case ints_of (split_on CHR '':'' s) of
             Inr [h, m, sec] \<Rightarrow> h * 3600 + m * 60 + sec
           | Inr [m, sec] \<Rightarrow> m * 60 + sec
           | _ \<Rightarrow> 0))"

section \<open>config/alert\_weights.py\<close>

definition ALERT_WEIGHTS :: "(string \<times> int) list" where
  "ALERT_WEIGHTS =
     [(''Harsh Braking'', - 5), (''Harsh Cornering'', - 3), (''Harsh Acceleration'', - 4),
      (''Speeding Over'', - 7), (''Engine Idle'', - 2), (''After Hours'', - 6)]"

definition DRIVING_SCORE_THRESHOLDS :: "(string \<times> rat) list" where
  "DRIVING_SCORE_THRESHOLDS =
     [(''EXCELLENT'', 90), (''GOOD'', 75), (''AVERAGE'', 60), (''BELOW_AVERAGE'', 40), (''POOR'', 0)]"

section \<open>analysis/metrics.py: calculate\_driving\_metrics\<close>

text \<open>
  The rows of the two frames are lists of (column, value) cells with string values; a
  column without a cell in a row is a missing value.
\<close>

type_synonym cells = "(string \<times> string) list"

definition cell :: "string \<Rightarrow> cells \<Rightarrow> string option" where
  "cell col row = map_of row col"

text \<open>
  \<open>pd.cut(x, bins, labels, right=True)\<close>: the bins must not decrease and must not repeat,
  and there is one label for each interval; a value gets the label of the interval
  \<open>(lower, upper]\<close> it lies in, or none.
\<close>

fun bin_label :: "rat list \<Rightarrow> string list \<Rightarrow> rat \<Rightarrow> string option" where
  "bin_label (lower # upper # bins) (label # labels) x =
     (if lower < x \<and> x \<le> upper then Some label else bin_label (upper # bins) labels x)"
| "bin_label _ _ x = None"

definition pd_cut :: "rat list \<Rightarrow> rat list \<Rightarrow> string list \<Rightarrow> error + string option list" where
  "pd_cut xs bins labels =
     (if \<not> sorted bins then Inl ValueError
      else if \<not> distinct bins then Inl ValueError
      else if length labels \<noteq> length bins - 1 then Inl ValueError
      else Inr (map (bin_label bins labels) xs))"

text \<open>A row of the result: the technician, the count of every alert type, and the scores.\<close>

record driving_row =
  d_TechCode :: string
  d_counts :: "(string \<times> nat) list"
  d_TotalAlerts :: nat
  d_WeightedScore :: "int option"
  d_DrivingScore :: "rat option"
  d_DrivingCategory :: "string option"

text \<open>The column the alerts are merged on.\<close>

definition merge_id_column :: "cells table \<Rightarrow> cells table \<Rightarrow> error + string" where
  "merge_id_column tech_df alert_df =
     (if ''DeviceId'' \<in> set (columns alert_df) then Inr ''DeviceId''
      else
        (case find (\<lambda>id_col. id_col \<in> set (columns alert_df) \<and> id_col \<in> set (columns tech_df))
                [''VehicleId'', ''UnitId'', ''TrackerName''] of
           Some id_col \<Rightarrow> Inr id_col
         | None \<Rightarrow> Inl ValueError))"

text \<open>
  The left merge of the alerts with the technicians: for every alert the technician code
  of every technician row with the same id (a missing code when there is none), with the
  alert's type.
\<close>

definition merged_alerts :: "string \<Rightarrow> cells list \<Rightarrow> cells list \<Rightarrow> (string option \<times> string option) list" where
  "merged_alerts id_col techs alerts =
     concat (map (\<lambda>alert.
        (case filter (\<lambda>tech. cell id_col tech = cell id_col alert) techs of
           [] \<Rightarrow> [(None, cell ''AlertType'' alert)]
         | matches \<Rightarrow> map (\<lambda>tech. (cell ''TechCode'' tech, cell ''AlertType'' alert)) matches))
       alerts)"

text \<open>
  \<open>groupby(['TechCode', 'AlertType']).size().unstack(fill_value=0)\<close>: rows with a missing
  key are left out; one row for each technician and one column for each alert type, both
  sorted.
\<close>

definition grouped_pairs :: "(string option \<times> string option) list \<Rightarrow> (string \<times> string) list" where
  "grouped_pairs merged =
     concat (map (\<lambda>(tech, alert_type).
        (case (tech, alert_type) of (Some t, Some a) \<Rightarrow> [(t, a)] | _ \<Rightarrow> [])) merged)"

definition alert_counts :: "(string \<times> string) list \<Rightarrow> (string \<times> (string \<times> nat) list) list" where
  "alert_counts pairs =
     map (\<lambda>tech.
        (tech, map (\<lambda>alert_type. (alert_type, length (filter (\<lambda>p. p = (tech, alert_type)) pairs)))
                 (sort (remdups (map snd pairs)))))
       (sort (remdups (map fst pairs)))"

definition weighted_score :: "(string \<times> nat) list \<Rightarrow> int" where
  "weighted_score counts =
     sum_list (map (\<lambda>(alert_type, n). int n * (case map_of ALERT_WEIGHTS alert_type of
                                                   Some w \<Rightarrow> w | None \<Rightarrow> 0)) counts)"

definition max_possible_bad_score :: int where
  "max_possible_bad_score = sum_list (map snd ALERT_WEIGHTS) * 100"

definition driving_score :: "int \<Rightarrow> rat" where
  "driving_score weighted =
     max 0 (min 100 (100 - of_int weighted / of_int max_possible_bad_score * 100))"

definition driving_bins :: "rat list" where
  "driving_bins = [0] @ map snd DRIVING_SCORE_THRESHOLDS @ [100]"

definition driving_labels :: "string list" where
  "driving_labels = map fst DRIVING_SCORE_THRESHOLDS @ [''Excellent'']"

text \<open>
  The function. The column TotalAlerts takes the place of an alert type of that name; the
  weighted score is computed when every other column is a key of \<open>ALERT_WEIGHTS\<close>.
\<close>

definition calculate_driving_metrics :: "cells table \<Rightarrow> cells table \<Rightarrow> error + driving_row list" where
  "calculate_driving_metrics tech_df alert_df =
     (if \<not> (''TechCode'' \<in> set (columns tech_df) \<and> ''DeviceId'' \<in> set (columns tech_df))
      then Inl ValueError
      else
        (case merge_id_column tech_df alert_df of
           Inl e \<Rightarrow> Inl e
         | Inr id_col \<Rightarrow>
             if ''TechCode'' \<in> set (columns alert_df) \<or> ''AlertType'' \<notin> set (columns alert_df)
             then Inl KeyError
             else
               let counts = alert_counts (grouped_pairs (merged_alerts id_col (rows tech_df) (rows alert_df)));
                   frame = map (\<lambda>(tech, by_type).
                              \<lparr>d_TechCode = tech,
                               d_counts = filter (\<lambda>(alert_type, n). alert_type \<noteq> ''TotalAlerts'') by_type,
                               d_TotalAlerts = sum_list (map snd by_type),
                               d_WeightedScore = None, d_DrivingScore = None,
                               d_DrivingCategory = None\<rparr>) counts;
                   alert_types = filter (\<lambda>alert_type. alert_type \<noteq> ''TotalAlerts'')
                                   (sort (remdups (map snd (grouped_pairs
                                      (merged_alerts id_col (rows tech_df) (rows alert_df))))))
               in if list_all (\<lambda>alert_type. alert_type \<in> set (map fst ALERT_WEIGHTS)) alert_types
                  then
                    let scored = map (\<lambda>r. r\<lparr>d_WeightedScore := Some (weighted_score (d_counts r)),
                                             d_DrivingScore :=
                                               Some (driving_score (weighted_score (d_counts r)))\<rparr>) frame
                    in (case pd_cut (map (\<lambda>r. driving_score (weighted_score (d_counts r))) frame)
                               driving_bins driving_labels of
                          Inl e \<Rightarrow> Inl e
                        | Inr categories \<Rightarrow>
                            Inr (map (\<lambda>(r, category). r\<lparr>d_DrivingCategory := category\<rparr>)
                                   (zip scored categories)))
                  else Inr frame))"

text \<open>
  Example frames: the technicians JS and JD with their devices, and one alert of the
  device of JD; JS has no alert at all.
\<close>

definition example_tech_df :: "cells table" where
  "example_tech_df =
     \<lparr>columns = [''TechCode'', ''DeviceId''],
      rows = [[(''TechCode'', ''JS''), (''DeviceId'', ''James'')],
              [(''TechCode'', ''JD''), (''DeviceId'', ''Joe'')]]\<rparr>"

definition example_alert_df :: "cells table" where
  "example_alert_df =
     \<lparr>columns = [''DeviceId'', ''AlertType''],
      rows = [[(''DeviceId'', ''Joe''), (''AlertType'', ''Harsh Braking'')]]\<rparr>"

section \<open>analysis/text\_mining.py: extract\_cancellation\_reasons\_from\_df\<close>

text \<open>
  A job row has the three columns the function looks for cancellation indicators in and
  the three columns it writes; a missing value is \<open>None\<close>. The other columns are the
  record's extension. The index of the frame is the position of the row.
\<close>

record cancel_row =
  r_JobCanceled :: "bool option"
  r_Status :: "string option"
  r_WorkDescription :: "string option"
  r_CancellationReason :: string
  r_CancellationConfidence :: rat
  r_CancellationRate :: "rat option"

text \<open>
  \<open>Series.str.contains(pattern, case=False, na=False)\<close> for a pattern that is an alternation
  of plain words: some alternative occurs in the value, letter case apart; a missing value
  gives false.
\<close>

definition str_contains :: "string list \<Rightarrow> string option \<Rightarrow> bool" where
  "str_contains alternatives v =
     (case v of
        None \<Rightarrow> False
      | Some s \<Rightarrow> list_ex (\<lambda>p. py_in (py_lower p) (py_lower s)) alternatives)"

text \<open>
  The row of \<open>canceled_mask\<close> before the demonstration draw: the disjunction of the masks of
  the indicator columns the frame has.
\<close>

definition shows_indicator :: "string list \<Rightarrow> 'a cancel_row_scheme \<Rightarrow> bool" where
  "shows_indicator cols r =
     ((''JobCanceled'' \<in> set cols \<and> r_JobCanceled r = Some True) \<or>
      (''Status'' \<in> set cols \<and> str_contains [''Cancel'', ''Cancelled'', ''Canceled''] (r_Status r)) \<or>
      (''WorkDescription'' \<in> set cols \<and>
       str_contains [''cancel'', ''cancelled'', ''canceled'', ''call off'', ''not home'']
         (r_WorkDescription r)))"

definition has_indicator_column :: "string list \<Rightarrow> bool" where
  "has_indicator_column cols =
     (''JobCanceled'' \<in> set cols \<or> ''Status'' \<in> set cols \<or> ''WorkDescription'' \<in> set cols)"

text \<open>
  \<open>canceled_mask\<close> as the loop over the canceled jobs sees it. \<open>random_choice n size\<close> is
  \<open>np.random.choice(result_df.index, size=size, replace=False)\<close> for a frame of \<open>n\<close> rows:
  the positions numpy's global generator draws. \<open>int(n_jobs * 0.05)\<close> is \<open>n_jobs div 20\<close>.
  The mask is \<open>None\<close> when the frame has no indicator column.
\<close>

definition canceled_mask ::
  "(nat \<Rightarrow> nat \<Rightarrow> nat list) \<Rightarrow> 'a cancel_row_scheme table \<Rightarrow> bool list option" where
  "canceled_mask random_choice df =
     (if \<not> has_indicator_column (columns df) then None
      else
        let row_mask = map (shows_indicator (columns df)) (rows df);
            cancellation_count = length (filter (\<lambda>b. b) row_mask);
            n_jobs = length (rows df)
        in if cancellation_count = 0 \<and> 0 < n_jobs
           then
             let cancel_indices = random_choice n_jobs (max 1 (n_jobs div 20))
             in Some (map (\<lambda>i. i \<in> set cancel_indices) [0 ..< n_jobs])
           else Some row_mask)"

text \<open>The two columns the function adds when the frame lacks them.\<close>

definition with_reason_columns :: "'a cancel_row_scheme table \<Rightarrow> 'a cancel_row_scheme table" where
  "with_reason_columns df =
     (let df = (if ''CancellationReason'' \<notin> set (columns df)
                then \<lparr>columns = columns df @ [''CancellationReason''],
                      rows = map (\<lambda>r. r\<lparr>r_CancellationReason := ''NOT_CANCELED''\<rparr>) (rows df)\<rparr>
                else df);
          df = (if ''CancellationConfidence'' \<notin> set (columns df)
                then \<lparr>columns = columns df @ [''CancellationConfidence''],
                      rows = map (\<lambda>r. r\<lparr>r_CancellationConfidence := 0\<rparr>) (rows df)\<rparr>
                else df)
      in df)"

text \<open>The body of the loop over the canceled jobs, for one row and its mask value.\<close>

definition classify_row :: "string list \<Rightarrow> 'a cancel_row_scheme \<times> bool \<Rightarrow> 'a cancel_row_scheme" where
  "classify_row cols rb =
     (case rb of (r, canceled) \<Rightarrow>
        if canceled \<and> ''WorkDescription'' \<in> set cols
        then (case extract_cancellation_reason (r_WorkDescription r) of
                (reason, confidence) \<Rightarrow>
                  r\<lparr>r_CancellationReason := reason, r_CancellationConfidence := confidence\<rparr>)
        else r)"

text \<open>
  The function. The per-CSR counts it computes at the end are only printed and are left
  out.
\<close>

definition extract_cancellation_reasons_from_df ::
  "(nat \<Rightarrow> nat \<Rightarrow> nat list) \<Rightarrow> 'a cancel_row_scheme table \<Rightarrow> 'a cancel_row_scheme table" where
  "extract_cancellation_reasons_from_df random_choice df =
     (let result_df = with_reason_columns df in
      (case canceled_mask random_choice df of
         None \<Rightarrow> result_df
       | Some final_mask \<Rightarrow>
           let classified = map (classify_row (columns result_df)) (zip (rows result_df) final_mask);
               total_jobs = length (rows result_df);
               total_cancellations = length (filter (\<lambda>b. b) final_mask);
               company_cancel_rate =
                 (if 0 < total_jobs then of_nat total_cancellations / of_nat total_jobs else 0)
           in \<lparr>columns = (if ''CancellationRate'' \<in> set (columns result_df) then columns result_df
                           else columns result_df @ [''CancellationRate'']),
               rows = map (\<lambda>r. r\<lparr>r_CancellationRate := Some company_cancel_rate\<rparr>) classified\<rparr>))"

text \<open>An example frame with work descriptions only, and a job row of it.\<close>

definition example_cancel_row :: "string \<Rightarrow> cancel_row" where
  "example_cancel_row description =
     \<lparr>r_JobCanceled = None, r_Status = None, r_WorkDescription = Some description,
      r_CancellationReason = [], r_CancellationConfidence = 0, r_CancellationRate = None\<rparr>"

definition example_cancel_df :: "string list \<Rightarrow> string list \<Rightarrow> cancel_row table" where
  "example_cancel_df cols descriptions =
     \<lparr>columns = cols, rows = map example_cancel_row descriptions\<rparr>"

text \<open>
  Two outcomes of \<open>np.random.choice(index, size=size, replace=False)\<close> on an index of \<open>n\<close>
  positions: the first positions and the last positions.
\<close>

definition draw_first :: "nat \<Rightarrow> nat \<Rightarrow> nat list" where
  "draw_first n k = [0 ..< k]"

definition draw_last :: "nat \<Rightarrow> nat \<Rightarrow> nat list" where
  "draw_last n k = [n - k ..< n]"

text \<open>A row of the example frame after the function: its reason, confidence and rate.\<close>

definition example_cancel_result :: "string \<Rightarrow> string \<Rightarrow> rat \<Rightarrow> rat option \<Rightarrow> cancel_row" where
  "example_cancel_result description reason confidence rate =
     \<lparr>r_JobCanceled = None, r_Status = None, r_WorkDescription = Some description,
      r_CancellationReason = reason, r_CancellationConfidence = confidence,
      r_CancellationRate = rate\<rparr>"

section \<open>Properties of the cleaner and of the identity lookup\<close>

subsection \<open>standardize\_address\<close>

text \<open>
  Claim C7. The substitutions make one pass each: of three commas in a row the first two
  collapse to one and the third stays, so a second application changes the result again.
  The same happens inside an address.
\<close>

theorem standardize_address_not_idempotent:
  "standardize_address (Some '',,,'') = '',,'' \<and>
   standardize_address (Some '',,'') = '','' \<and>
   standardize_address (Some (standardize_address (Some '',,,''))) \<noteq> standardize_address (Some '',,,'') \<and>
   standardize_address (Some ''1 MAIN ST,,, APT 2'') = ''1 MAIN ST,, APT 2'' \<and>
   standardize_address (Some ''1 MAIN ST,, APT 2'') = ''1 MAIN ST, APT 2''"
  by code_simp

subsection \<open>The code-to-device lookup\<close>

lemma py_strip_Nil [simp]: "py_strip [] = []"
  by (simp add: py_strip_def)

lemma py_upper_Nil [simp]: "py_upper [] = []"
  by (simp add: py_upper_def)

text \<open>
  The lookup is total: every row keeps its place and gets a device name, which is UNKNOWN
  for a missing value and for a value that is no key of the table.
\<close>

lemma map_tech_codes_to_devices_total:
  "map fst (map_tech_codes_to_devices tech_col df) = df \<and>
   map snd (map_tech_codes_to_devices tech_col df) =
     map (\<lambda>row. case tech_col row of
                   None \<Rightarrow> ''UNKNOWN''
                 | Some code \<Rightarrow>
                     (case map_of TECH_REVERSE_MAPPING code of
                        Some device \<Rightarrow> device | None \<Rightarrow> ''UNKNOWN'')) df"
proof -
  have d: "\<And>x. device_for x =
      (case x of None \<Rightarrow> ''UNKNOWN''
       | Some code \<Rightarrow>
           (case map_of TECH_REVERSE_MAPPING code of Some device \<Rightarrow> device | None \<Rightarrow> ''UNKNOWN''))"
    by (auto simp: device_for_def map_of_eq_None_iff[symmetric] split: option.splits)
  show ?thesis
    by (simp add: map_tech_codes_to_devices_def comp_def d)
qed

text \<open>
  Claim C8. The code JS is mapped to James, but the lookup takes the value of the column as
  it is: the lower-case and the space-padded forms of JS, which trim and upper-case to JS,
  resolve to UNKNOWN. \<open>standardize_tech_code\<close> upper-cases and trims and gives JS for each of
  them, but \<open>map_tech_codes_to_devices\<close> does not apply it.
\<close>

theorem device_lookup_case_sensitive:
  "py_upper (py_strip ''js '') = ''JS'' \<and>
   device_for (Some ''JS'') = ''James'' \<and>
   device_for (Some ''js '') = ''UNKNOWN'' \<and>
   device_for (Some ''js'') = ''UNKNOWN'' \<and>
   device_for (Some ''JS '') = ''UNKNOWN'' \<and>
   standardize_tech_code (Some ''js '') = ''JS'' \<and>
   map_tech_codes_to_devices (\<lambda>row. Some row) [''JS'', ''js'', ''JS ''] =
     [(''JS'', ''James''), (''js'', ''UNKNOWN''), (''JS '', ''UNKNOWN'')]"
  by code_simp

section \<open>Properties of match\_jobs\_to\_gps\_stops\<close>

lemma threshold_80: "GPS_MATCH_THRESHOLD * 100 = 80"
  by (simp add: GPS_MATCH_THRESHOLD_def)

lemma best_match_loop_invariant:
  "(\<not> (\<exists>s \<in> set stops. f s > bc \<and> f s \<ge> 80) \<and> best_match_loop f stops (bm, bc) = (bm, bc)) \<or>
   (\<exists>pre best post. stops = pre @ best # post \<and> f best > bc \<and> f best \<ge> 80 \<and>
      (\<forall>s \<in> set pre. f s < f best) \<and> (\<forall>s \<in> set post. f s \<le> f best) \<and>
      best_match_loop f stops (bm, bc) = (Some best, f best))"
proof (induction stops arbitrary: bm bc)
  case Nil
  then show ?case by simp
next
  case (Cons stop rest)
  show ?case
  proof (cases "f stop > bc \<and> f stop \<ge> 80")
    case True
    then have step: "best_match_loop f (stop # rest) (bm, bc) = best_match_loop f rest (Some stop, f stop)"
      by (simp add: threshold_80 Let_def)
    from Cons.IH[where bc="f stop" and bm="Some stop"] show ?thesis
    proof
      assume a: "\<not> (\<exists>s \<in> set rest. f s > f stop \<and> f s \<ge> 80) \<and>
                 best_match_loop f rest (Some stop, f stop) = (Some stop, f stop)"
      have le: "\<forall>s \<in> set rest. f s \<le> f stop"
      proof
        fix s assume "s \<in> set rest"
        with a have "\<not> (f s > f stop \<and> f s \<ge> 80)" by blast
        with True show "f s \<le> f stop" by linarith
      qed
      have "stop # rest = [] @ stop # rest \<and> f stop > bc \<and> f stop \<ge> 80 \<and>
            (\<forall>s \<in> set []. f s < f stop) \<and> (\<forall>s \<in> set rest. f s \<le> f stop) \<and>
            best_match_loop f (stop # rest) (bm, bc) = (Some stop, f stop)"
        using True le a step by simp
      then show ?thesis by blast
    next
      assume "\<exists>pre best post. rest = pre @ best # post \<and> f best > f stop \<and> f best \<ge> 80 \<and>
          (\<forall>s \<in> set pre. f s < f best) \<and> (\<forall>s \<in> set post. f s \<le> f best) \<and>
          best_match_loop f rest (Some stop, f stop) = (Some best, f best)"
      then obtain pre best post where
        h: "rest = pre @ best # post" "f best > f stop" "f best \<ge> 80"
           "\<forall>s \<in> set pre. f s < f best" "\<forall>s \<in> set post. f s \<le> f best"
           "best_match_loop f rest (Some stop, f stop) = (Some best, f best)"
        by blast
      have "stop # rest = (stop # pre) @ best # post \<and> f best > bc \<and> f best \<ge> 80 \<and>
            (\<forall>s \<in> set (stop # pre). f s < f best) \<and> (\<forall>s \<in> set post. f s \<le> f best) \<and>
            best_match_loop f (stop # rest) (bm, bc) = (Some best, f best)"
        using h True step by auto
      then show ?thesis by blast
    qed
  next
    case False
    then have step: "best_match_loop f (stop # rest) (bm, bc) = best_match_loop f rest (bm, bc)"
      by (auto simp add: threshold_80 Let_def)
    from Cons.IH[where bc=bc and bm=bm] show ?thesis
    proof
      assume a: "\<not> (\<exists>s \<in> set rest. f s > bc \<and> f s \<ge> 80) \<and>
                 best_match_loop f rest (bm, bc) = (bm, bc)"
      with False step show ?thesis by auto
    next
      assume "\<exists>pre best post. rest = pre @ best # post \<and> f best > bc \<and> f best \<ge> 80 \<and>
          (\<forall>s \<in> set pre. f s < f best) \<and> (\<forall>s \<in> set post. f s \<le> f best) \<and>
          best_match_loop f rest (bm, bc) = (Some best, f best)"
      then obtain pre best post where
        h: "rest = pre @ best # post" "f best > bc" "f best \<ge> 80"
           "\<forall>s \<in> set pre. f s < f best" "\<forall>s \<in> set post. f s \<le> f best"
           "best_match_loop f rest (bm, bc) = (Some best, f best)"
        by blast
      from False h(2,3) have "f stop < f best" by linarith
      then have "stop # rest = (stop # pre) @ best # post \<and> f best > bc \<and> f best \<ge> 80 \<and>
            (\<forall>s \<in> set (stop # pre). f s < f best) \<and> (\<forall>s \<in> set post. f s \<le> f best) \<and>
            best_match_loop f (stop # rest) (bm, bc) = (Some best, f best)"
        using h step by auto
      then show ?thesis by blast
    qed
  qed
qed

lemma best_match_loop_start:
  "(if \<exists>s \<in> set stops. 80 \<le> f s
    then \<exists>pre best post. stops = pre @ best # post \<and> 80 \<le> f best \<and>
           (\<forall>s \<in> set pre. f s < f best) \<and> (\<forall>s \<in> set post. f s \<le> f best) \<and>
           best_match_loop f stops (None, 0) = (Some best, f best)
    else best_match_loop f stops (None, 0) = (None, 0))"
proof (cases "\<exists>s \<in> set stops. 80 \<le> f s")
  case True
  then have "\<exists>s \<in> set stops. f s > 0 \<and> f s \<ge> 80" by force
  with best_match_loop_invariant[where stops=stops and f=f and bc=0 and bm=None] True show ?thesis by auto
next
  case False
  then have "\<not> (\<exists>s \<in> set stops. f s > 0 \<and> f s \<ge> 80)" by blast
  have "best_match_loop f stops (None, 0) = (None, 0)"
    using best_match_loop_invariant[where stops=stops and f=f and bc=0 and bm=None]
  proof
    assume "\<not> (\<exists>s \<in> set stops. f s > 0 \<and> f s \<ge> 80) \<and>
            best_match_loop f stops (None, 0) = (None, 0)"
    then show ?thesis by simp
  next
    assume "\<exists>pre best post. stops = pre @ best # post \<and> f best > 0 \<and> f best \<ge> 80 \<and>
      (\<forall>s \<in> set pre. f s < f best) \<and> (\<forall>s \<in> set post. f s \<le> f best) \<and>
      best_match_loop f stops (None, 0) = (Some best, f best)"
    then obtain pre best post where "stops = pre @ best # post" "f best \<ge> 80" by blast
    then have "best \<in> set stops" "80 \<le> f best" by simp_all
    with False show ?thesis by blast
  qed
  with False show ?thesis by simp
qed

text \<open>
  The five added columns of a job that got the stop \<open>best\<close> with the confidence \<open>c\<close>, and of
  a job that got none.
\<close>

lemma gps_fields_of_columns:
  "GPS_StartTime (gps_fields_of best c) = stop_StartTime best"
  "GPS_EndTime (gps_fields_of best c) = stop_EndTime best"
  "GPS_Duration (gps_fields_of best c) =
     (case (stop_StartTime best, stop_EndTime best) of
        (Some s, Some e) \<Rightarrow> Some (of_int (e - s) / 1000000000 / 60)
      | _ \<Rightarrow> None)"
  "GPS_Address (gps_fields_of best c) = stop_Address best"
  "GPS_MatchConfidence (gps_fields_of best c) = c"
  by (simp_all add: gps_fields_of_def gps_duration_def)

lemma no_gps_match_columns:
  "GPS_StartTime no_gps_match = None" "GPS_EndTime no_gps_match = None"
  "GPS_Duration no_gps_match = None" "GPS_Address no_gps_match = Some []"
  "GPS_MatchConfidence no_gps_match = 0"
  by (simp_all add: no_gps_match_def)

text \<open>
  Claim C3. Every output row keeps its job. With the candidates of a job (the stops of its
  device that start in \<open>[T - W, T + W]\<close>, in table order; none without a device or an
  appointment time): if some candidate has an address confidence of at least 80, there is a
  candidate \<open>best\<close> with confidence at least 80 such that every candidate before it is
  strictly less confident and every candidate after it is at most as confident (the highest
  confidence, the first of its ties), and the job's five GPS columns are the start time,
  the end time, the duration in minutes and the address of \<open>best\<close> and its confidence;
  otherwise the five GPS columns keep their null values (no time, no duration, the empty
  address, confidence 0). The function is total: no input raises.
\<close>

theorem match_jobs_to_gps_stops_best_in_window:
  "length (match_jobs_to_gps_stops token_sort_ratio job_df gps_df W) = length job_df \<and>
   (\<forall>i < length job_df.
      let job = job_df ! i;
          gps = snd (match_jobs_to_gps_stops token_sort_ratio job_df gps_df W ! i);
          conf = (\<lambda>stop. match_address_confidence token_sort_ratio (job_Address job) (stop_Address stop));
          cands = candidates W gps_df job
      in fst (match_jobs_to_gps_stops token_sort_ratio job_df gps_df W ! i) = job \<and>
         (if \<exists>stop \<in> set cands. 80 \<le> conf stop
          then \<exists>pre best post.
                 cands = pre @ best # post \<and> 80 \<le> conf best \<and>
                 (\<forall>s \<in> set pre. conf s < conf best) \<and>
                 (\<forall>s \<in> set post. conf s \<le> conf best) \<and>
                 GPS_StartTime gps = stop_StartTime best \<and>
                 GPS_EndTime gps = stop_EndTime best \<and>
                 GPS_Duration gps =
                   (case (stop_StartTime best, stop_EndTime best) of
                      (Some s, Some e) \<Rightarrow> Some (of_int (e - s) / 1000000000 / 60)
                    | _ \<Rightarrow> None) \<and>
                 GPS_Address gps = stop_Address best \<and>
                 GPS_MatchConfidence gps = conf best
          else GPS_StartTime gps = None \<and> GPS_EndTime gps = None \<and> GPS_Duration gps = None \<and>
               GPS_Address gps = Some [] \<and> GPS_MatchConfidence gps = 0))"
proof -
  have one: "\<And>job :: 'a job_row_scheme.
      let conf = (\<lambda>stop. match_address_confidence token_sort_ratio (job_Address job) (stop_Address stop));
          cands = candidates W gps_df job;
          gps = match_job (match_address_confidence token_sort_ratio) W gps_df job
      in (if \<exists>stop \<in> set cands. 80 \<le> conf stop
          then \<exists>pre best post.
                 cands = pre @ best # post \<and> 80 \<le> conf best \<and>
                 (\<forall>s \<in> set pre. conf s < conf best) \<and>
                 (\<forall>s \<in> set post. conf s \<le> conf best) \<and>
                 GPS_StartTime gps = stop_StartTime best \<and>
                 GPS_EndTime gps = stop_EndTime best \<and>
                 GPS_Duration gps =
                   (case (stop_StartTime best, stop_EndTime best) of
                      (Some s, Some e) \<Rightarrow> Some (of_int (e - s) / 1000000000 / 60)
                    | _ \<Rightarrow> None) \<and>
                 GPS_Address gps = stop_Address best \<and>
                 GPS_MatchConfidence gps = conf best
          else GPS_StartTime gps = None \<and> GPS_EndTime gps = None \<and> GPS_Duration gps = None \<and>
               GPS_Address gps = Some [] \<and> GPS_MatchConfidence gps = 0)"
  proof -
    fix job :: "'a job_row_scheme"
    let ?conf = "\<lambda>stop. match_address_confidence token_sort_ratio (job_Address job) (stop_Address stop)"
    let ?gps = "match_job (match_address_confidence token_sort_ratio) W gps_df job"
    show "?thesis job"
    proof (cases "job_Device job = ''UNKNOWN'' \<or> job_FirstAppmnt job = None")
      case True
      then have "candidates W gps_df job = []"
        by (auto simp: candidates_def split: option.splits)
      moreover from True have "?gps = no_gps_match"
        by (auto simp: match_job_def split: option.splits)
      ultimately show ?thesis by (simp add: Let_def no_gps_match_columns)
    next
      case False
      then obtain T where T: "job_FirstAppmnt job = Some T" and dev: "job_Device job \<noteq> ''UNKNOWN''"
        by auto
      let ?stops = "device_stops gps_df (job_Device job) (T - minutes W) (T + minutes W)"
      have cands: "candidates W gps_df job = ?stops"
        using T dev by (simp add: candidates_def device_stops_def in_window_def[abs_def])
      have mj: "?gps =
          (if ?stops = [] then no_gps_match
           else case best_match_loop ?conf ?stops (None, 0) of
                  (Some best_match, best_confidence) \<Rightarrow> gps_fields_of best_match best_confidence
                | (None, _) \<Rightarrow> no_gps_match)"
        using T dev by (simp add: match_job_def Let_def)
      show ?thesis
      proof (cases "\<exists>stop \<in> set ?stops. 80 \<le> ?conf stop")
        case True
        with best_match_loop_start[of ?stops ?conf] obtain pre best post where
          h: "?stops = pre @ best # post" "80 \<le> ?conf best"
             "\<forall>s \<in> set pre. ?conf s < ?conf best" "\<forall>s \<in> set post. ?conf s \<le> ?conf best"
             "best_match_loop ?conf ?stops (None, 0) = (Some best, ?conf best)"
          by auto
        from h(1) have ne: "?stops \<noteq> []" by auto
        have g: "?gps = gps_fields_of best (?conf best)"
          using mj ne h(5) by simp
        have "?stops = pre @ best # post \<and> 80 \<le> ?conf best \<and>
            (\<forall>s \<in> set pre. ?conf s < ?conf best) \<and>
            (\<forall>s \<in> set post. ?conf s \<le> ?conf best) \<and>
            GPS_StartTime ?gps = stop_StartTime best \<and>
            GPS_EndTime ?gps = stop_EndTime best \<and>
            GPS_Duration ?gps =
              (case (stop_StartTime best, stop_EndTime best) of
                 (Some s, Some e) \<Rightarrow> Some (of_int (e - s) / 1000000000 / 60)
               | _ \<Rightarrow> None) \<and>
            GPS_Address ?gps = stop_Address best \<and>
            GPS_MatchConfidence ?gps = ?conf best"
          using h(1-4) by (simp add: g gps_fields_of_columns)
        then have ex: "\<exists>pre best post.
            ?stops = pre @ best # post \<and> 80 \<le> ?conf best \<and>
            (\<forall>s \<in> set pre. ?conf s < ?conf best) \<and>
            (\<forall>s \<in> set post. ?conf s \<le> ?conf best) \<and>
            GPS_StartTime ?gps = stop_StartTime best \<and>
            GPS_EndTime ?gps = stop_EndTime best \<and>
            GPS_Duration ?gps =
              (case (stop_StartTime best, stop_EndTime best) of
                 (Some s, Some e) \<Rightarrow> Some (of_int (e - s) / 1000000000 / 60)
               | _ \<Rightarrow> None) \<and>
            GPS_Address ?gps = stop_Address best \<and>
            GPS_MatchConfidence ?gps = ?conf best"
          by blast
        from True have c: "(\<exists>stop \<in> set ?stops. 80 \<le> ?conf stop) = True" by simp
        show ?thesis unfolding Let_def cands c if_True by (rule ex)
      next
        case False
        with best_match_loop_start[of ?stops ?conf]
        have "best_match_loop ?conf ?stops (None, 0) = (None, 0)" by auto
        then have "?gps = no_gps_match"
          using mj by simp
        with False show ?thesis unfolding Let_def cands by (simp add: no_gps_match_columns)
      qed
    qed
  qed
  show ?thesis
  proof (intro conjI allI impI)
    show "length (match_jobs_to_gps_stops token_sort_ratio job_df gps_df W) = length job_df"
      by (simp add: match_jobs_to_gps_stops_def match_jobs_with_def)
  next
    fix i assume "i < length job_df"
    then have e: "match_jobs_to_gps_stops token_sort_ratio job_df gps_df W ! i =
        (job_df ! i, match_job (match_address_confidence token_sort_ratio) W gps_df (job_df ! i))"
      by (simp add: match_jobs_to_gps_stops_def match_jobs_with_def)
    from one[of "job_df ! i"] show "let job = job_df ! i;
          gps = snd (match_jobs_to_gps_stops token_sort_ratio job_df gps_df W ! i);
          conf = (\<lambda>stop. match_address_confidence token_sort_ratio (job_Address job) (stop_Address stop));
          cands = candidates W gps_df job
      in fst (match_jobs_to_gps_stops token_sort_ratio job_df gps_df W ! i) = job \<and>
         (if \<exists>stop \<in> set cands. 80 \<le> conf stop
          then \<exists>pre best post.
                 cands = pre @ best # post \<and> 80 \<le> conf best \<and>
                 (\<forall>s \<in> set pre. conf s < conf best) \<and>
                 (\<forall>s \<in> set post. conf s \<le> conf best) \<and>
                 GPS_StartTime gps = stop_StartTime best \<and>
                 GPS_EndTime gps = stop_EndTime best \<and>
                 GPS_Duration gps =
                   (case (stop_StartTime best, stop_EndTime best) of
                      (Some s, Some e) \<Rightarrow> Some (of_int (e - s) / 1000000000 / 60)
                    | _ \<Rightarrow> None) \<and>
                 GPS_Address gps = stop_Address best \<and>
                 GPS_MatchConfidence gps = conf best
          else GPS_StartTime gps = None \<and> GPS_EndTime gps = None \<and> GPS_Duration gps = None \<and>
               GPS_Address gps = Some [] \<and> GPS_MatchConfidence gps = 0)"
      unfolding Let_def e fst_conv snd_conv by (rule conjI[OF refl])
  qed
qed

lemma example_confidences:
  "match_address_confidence example_token_sort_ratio (job_Address example_job)
      (stop_Address (example_stop ''1 OAK RD, COTATI'' 31)) = 100"
  "match_address_confidence example_token_sort_ratio (job_Address example_job)
      (stop_Address (example_stop ''1 OAK RD COTATI'' 29)) = 85"
  "match_address_confidence example_token_sort_ratio (job_Address example_job)
      (stop_Address (example_stop ''9 OAK RD, COTATI'' 10)) = 70"
  by code_simp+

lemma example_candidates:
  "candidates DEFAULT_TIME_WINDOW
     [example_stop ''1 OAK RD, COTATI'' 31, example_stop ''1 OAK RD COTATI'' 29,
      example_stop ''9 OAK RD, COTATI'' 10] example_job =
   [example_stop ''1 OAK RD COTATI'' 29, example_stop ''9 OAK RD, COTATI'' 10]"
  by (simp add: candidates_def example_job_def example_stop_def in_window_def minutes_def
      DEFAULT_TIME_WINDOW_def)

lemma example_candidates_unmatched:
  "candidates DEFAULT_TIME_WINDOW
     [example_stop ''1 OAK RD, COTATI'' 31, example_stop ''9 OAK RD, COTATI'' 10] example_job =
   [example_stop ''9 OAK RD, COTATI'' 10]"
  by (simp add: candidates_def example_job_def example_stop_def in_window_def minutes_def
      DEFAULT_TIME_WINDOW_def)

text \<open>
  The spec's example with the default window of 30 minutes and a job at time \<open>T\<close>: the stop
  at \<open>T + 31\<close> minutes is no candidate although its address is the job's (confidence 100);
  of the candidates at \<open>T + 29\<close> (confidence 85) and \<open>T + 10\<close> (confidence 70) the first is
  matched, and the job gets its start time, its end time 45 minutes later, the duration 45,
  its address and the confidence 85. Without the stop at \<open>T + 29\<close> the job keeps the null
  columns.
\<close>

theorem match_jobs_to_gps_stops_best_in_window_witness:
  "candidates DEFAULT_TIME_WINDOW
     [example_stop ''1 OAK RD, COTATI'' 31, example_stop ''1 OAK RD COTATI'' 29,
      example_stop ''9 OAK RD, COTATI'' 10] example_job =
   [example_stop ''1 OAK RD COTATI'' 29, example_stop ''9 OAK RD, COTATI'' 10] \<and>
   match_jobs_to_gps_stops example_token_sort_ratio [example_job]
     [example_stop ''1 OAK RD, COTATI'' 31, example_stop ''1 OAK RD COTATI'' 29,
      example_stop ''9 OAK RD, COTATI'' 10] DEFAULT_TIME_WINDOW =
   [(example_job,
     \<lparr>GPS_StartTime = Some 1700001740000000000, GPS_EndTime = Some 1700004440000000000,
      GPS_Duration = Some 45, GPS_Address = Some ''1 OAK RD COTATI'',
      GPS_MatchConfidence = 85\<rparr>)] \<and>
   match_jobs_to_gps_stops example_token_sort_ratio [example_job]
     [example_stop ''1 OAK RD, COTATI'' 31, example_stop ''9 OAK RD, COTATI'' 10]
     DEFAULT_TIME_WINDOW =
   [(example_job,
     \<lparr>GPS_StartTime = None, GPS_EndTime = None, GPS_Duration = None, GPS_Address = Some [],
      GPS_MatchConfidence = 0\<rparr>)]"
proof -
  let ?s31 = "example_stop ''1 OAK RD, COTATI'' 31"
  let ?s29 = "example_stop ''1 OAK RD COTATI'' 29"
  let ?s10 = "example_stop ''9 OAK RD, COTATI'' 10"
  let ?gps = "[?s31, ?s29, ?s10]"
  let ?gps2 = "[?s31, ?s10]"
  let ?conf = "\<lambda>stop. match_address_confidence example_token_sort_ratio
                 (job_Address example_job) (stop_Address stop)"
  let ?out = "match_jobs_to_gps_stops example_token_sort_ratio [example_job] ?gps DEFAULT_TIME_WINDOW"
  let ?out2 = "match_jobs_to_gps_stops example_token_sort_ratio [example_job] ?gps2 DEFAULT_TIME_WINDOW"
  note inst = match_jobs_to_gps_stops_best_in_window
    [of example_token_sort_ratio "[example_job]" ?gps DEFAULT_TIME_WINDOW]
  note inst2 = match_jobs_to_gps_stops_best_in_window
    [of example_token_sort_ratio "[example_job]" ?gps2 DEFAULT_TIME_WINDOW]
  from inst have len: "length ?out = 1" by simp
  from inst2 have len2: "length ?out2 = 1" by simp
  have some: "\<exists>stop \<in> set (candidates DEFAULT_TIME_WINDOW ?gps example_job). 80 \<le> ?conf stop"
    by (simp add: example_candidates example_confidences)
  have none: "\<not> (\<exists>stop \<in> set (candidates DEFAULT_TIME_WINDOW ?gps2 example_job). 80 \<le> ?conf stop)"
    by (simp add: example_candidates_unmatched example_confidences)
  have lt: "0 < length [example_job]" by simp
  note row = inst[THEN conjunct2, rule_format, OF lt, unfolded Let_def nth_Cons_0]
  note row2 = inst2[THEN conjunct2, rule_format, OF lt, unfolded Let_def nth_Cons_0]
  note matched = row[THEN conjunct2, unfolded if_P[OF some]]
  note n = row2[THEN conjunct2, unfolded if_not_P[OF none]]
  from matched obtain pre best post where
    h: "candidates DEFAULT_TIME_WINDOW ?gps example_job = pre @ best # post" "80 \<le> ?conf best"
       "GPS_StartTime (snd (?out ! 0)) = stop_StartTime best \<and>
       GPS_EndTime (snd (?out ! 0)) = stop_EndTime best \<and>
       GPS_Duration (snd (?out ! 0)) =
         (case (stop_StartTime best, stop_EndTime best) of
            (Some s, Some e) \<Rightarrow> Some (of_int (e - s) / 1000000000 / 60)
          | _ \<Rightarrow> None) \<and>
       GPS_Address (snd (?out ! 0)) = stop_Address best \<and>
       GPS_MatchConfidence (snd (?out ! 0)) = ?conf best"
    by blast
  from h(1) have "best \<in> set [?s29, ?s10]" unfolding example_candidates by (metis in_set_conv_decomp)
  then have "best = ?s29 \<or> best = ?s10" by simp
  with h(2) have best: "best = ?s29" by (auto simp: example_confidences)
  have s: "snd (?out ! 0) =
     \<lparr>GPS_StartTime = Some 1700001740000000000, GPS_EndTime = Some 1700004440000000000,
      GPS_Duration = Some 45, GPS_Address = Some ''1 OAK RD COTATI'',
      GPS_MatchConfidence = 85\<rparr>"
    using h(3) unfolding best example_confidences
    by (cases "snd (?out ! 0)") (simp add: example_stop_def minutes_def)
  from row have f: "fst (?out ! 0) = example_job" by (rule conjunct1)
  from len obtain x where x: "?out = [x]"
    by (cases ?out) auto
  with f s have x': "x = (example_job,
     \<lparr>GPS_StartTime = Some 1700001740000000000, GPS_EndTime = Some 1700004440000000000,
      GPS_Duration = Some 45, GPS_Address = Some ''1 OAK RD COTATI'',
      GPS_MatchConfidence = 85\<rparr>)"
    by (cases x) simp
  from row2 have f2: "fst (?out2 ! 0) = example_job" by (rule conjunct1)
  have s2: "snd (?out2 ! 0) =
     \<lparr>GPS_StartTime = None, GPS_EndTime = None, GPS_Duration = None, GPS_Address = Some [],
      GPS_MatchConfidence = 0\<rparr>"
    using n by (cases "snd (?out2 ! 0)") simp
  from len2 obtain y where y: "?out2 = [y]"
    by (cases ?out2) auto
  with f2 s2 have y': "y = (example_job,
     \<lparr>GPS_StartTime = None, GPS_EndTime = None, GPS_Duration = None, GPS_Address = Some [],
      GPS_MatchConfidence = 0\<rparr>)"
    by (cases y) simp
  from x x' y y' show ?thesis by (simp add: example_candidates)
qed

section \<open>Properties of merge\_sales\_with\_jobs\<close>

subsection \<open>Deduplication\<close>

lemma ddf_keys_unseen:
  "r \<in> set (drop_duplicates_from key seen rs) \<Longrightarrow> r \<in> set rs \<and> key r \<notin> set seen"
proof (induction rs arbitrary: seen)
  case Nil
  then show ?case by simp
next
  case (Cons x rs)
  show ?case
  proof (cases "key x \<in> set seen")
    case True
    with Cons.prems have "r \<in> set (drop_duplicates_from key seen rs)" by simp
    from Cons.IH[OF this] show ?thesis by simp
  next
    case False
    with Cons.prems have "r = x \<or> r \<in> set (drop_duplicates_from key (key x # seen) rs)" by simp
    then show ?thesis
    proof
      assume "r = x"
      with False show ?thesis by simp
    next
      assume "r \<in> set (drop_duplicates_from key (key x # seen) rs)"
      from Cons.IH[OF this] show ?thesis by simp
    qed
  qed
qed

lemma ddf_distinct: "distinct (map key (drop_duplicates_from key seen rs))"
proof (induction rs arbitrary: seen)
  case Nil
  then show ?case by simp
next
  case (Cons r rs)
  have "\<forall>y \<in> set (drop_duplicates_from key (key r # seen) rs). key y \<noteq> key r"
  proof
    fix y assume "y \<in> set (drop_duplicates_from key (key r # seen) rs)"
    from ddf_keys_unseen[OF this] show "key y \<noteq> key r" by simp
  qed
  then have "key r \<notin> key ` set (drop_duplicates_from key (key r # seen) rs)" by force
  with Cons show ?case by simp
qed

lemma ddf_first:
  "r \<in> set (drop_duplicates_from key seen rs) \<Longrightarrow> find (\<lambda>s. key s = key r) rs = Some r"
proof (induction rs arbitrary: seen)
  case Nil
  then show ?case by simp
next
  case (Cons x rs)
  show ?case
  proof (cases "key x \<in> set seen")
    case True
    with Cons.prems have in_rest: "r \<in> set (drop_duplicates_from key seen rs)" by simp
    then have "key r \<notin> set seen" using ddf_keys_unseen by fastforce
    with True have "key x \<noteq> key r" by auto
    with Cons.IH[OF in_rest] show ?thesis by simp
  next
    case False
    with Cons.prems have "r = x \<or> r \<in> set (drop_duplicates_from key (key x # seen) rs)" by simp
    then show ?thesis
    proof
      assume "r = x"
      then show ?thesis by simp
    next
      assume in_rest: "r \<in> set (drop_duplicates_from key (key x # seen) rs)"
      then have "key r \<notin> set (key x # seen)" using ddf_keys_unseen by fastforce
      then have "key x \<noteq> key r" by auto
      with Cons.IH[OF in_rest] show ?thesis by simp
    qed
  qed
qed

lemma ddf_complete:
  "s \<in> set rs \<Longrightarrow> key s \<notin> set seen \<Longrightarrow> \<exists>r \<in> set (drop_duplicates_from key seen rs). key r = key s"
proof (induction rs arbitrary: seen)
  case Nil
  then show ?case by simp
next
  case (Cons x rs)
  show ?case
  proof (cases "key x \<in> set seen")
    case True
    with Cons.prems have "s \<in> set rs" by auto
    from Cons.IH[OF this Cons.prems(2)] True show ?thesis by simp
  next
    case False
    show ?thesis
    proof (cases "key s = key x")
      case True
      with False show ?thesis by auto
    next
      case neq: False
      with Cons.prems have "s \<in> set rs" "key s \<notin> set (key x # seen)" by auto
      from Cons.IH[OF this] False show ?thesis by auto
    qed
  qed
qed

lemma ddf_map:
  "(\<And>s. key (g s) = key s) \<Longrightarrow>
   drop_duplicates_from key seen (map g rs) = map g (drop_duplicates_from key seen rs)"
  by (induction rs arbitrary: seen) auto

text \<open>With a TechCode column in the sales frame, the column copies leave every key and amount.\<close>

lemma copy_rows:
  "''TechCode'' \<in> set (columns sales_df) \<Longrightarrow>
   \<exists>g. rows (copy_technician_columns jobs_cols sales_df) = map g (rows sales_df) \<and>
       (\<forall>s. g s\<lparr>s_Technician := s_Technician s\<rparr> = s)"
proof -
  assume t: "''TechCode'' \<in> set (columns sales_df)"
  show ?thesis
  proof (cases "''Technician'' \<in> set jobs_cols \<and> ''Technician'' \<notin> set (columns sales_df)")
    case True
    let ?g = "\<lambda>s. s\<lparr>s_Technician := py_upper (py_strip (s_TechCode s))\<rparr>"
    have "rows (copy_technician_columns jobs_cols sales_df) = map ?g (rows sales_df)"
      using t True by (simp add: copy_technician_columns_def Let_def)
    moreover have "\<forall>s. ?g s\<lparr>s_Technician := s_Technician s\<rparr> = s" by simp
    ultimately show ?thesis by blast
  next
    case False
    have "rows (copy_technician_columns jobs_cols sales_df) = map (\<lambda>s. s) (rows sales_df)"
      using t False by (auto simp add: copy_technician_columns_def Let_def)
    moreover have "\<forall>s::sales_row. s\<lparr>s_Technician := s_Technician s\<rparr> = s" by simp
    ultimately show ?thesis by blast
  qed
qed

text \<open>
  The deduplication step by itself, for a sales frame with the columns TechCode and
  InvoiceNumber: the rows it leaves have pairwise different stored (TechCode,
  InvoiceNumber) values, every one of them is the first row of the sales frame with its
  stored values (up to the Technician column, which the function may fill in), and every
  stored pair keeps a row. This is before the exact path trims InvoiceNumber.
\<close>

lemma deduplicated_sales_rows_first_seen:
  assumes "''TechCode'' \<in> set (columns sales_df)"
      and "''InvoiceNumber'' \<in> set (columns sales_df)"
  shows "distinct (map sales_key (deduplicated_sales_rows jobs_cols sales_df)) \<and>
         (\<forall>r \<in> set (deduplicated_sales_rows jobs_cols sales_df).
             \<exists>r0. find (\<lambda>s. sales_key s = sales_key r) (rows sales_df) = Some r0 \<and>
                  r\<lparr>s_Technician := s_Technician r0\<rparr> = r0) \<and>
         (\<forall>s \<in> set (rows sales_df).
             \<exists>r \<in> set (deduplicated_sales_rows jobs_cols sales_df). sales_key r = sales_key s)"
proof -
  from copy_rows[OF assms(1)] obtain g where
    g: "rows (copy_technician_columns jobs_cols sales_df) = map g (rows sales_df)"
       "\<forall>s. g s\<lparr>s_Technician := s_Technician s\<rparr> = s"
    by blast
  have key_g: "\<And>s. sales_key (g s) = sales_key s"
  proof -
    fix s
    have "sales_key (g s\<lparr>s_Technician := s_Technician s\<rparr>) = sales_key (g s)"
      by (simp add: sales_key_def)
    with g(2) show "sales_key (g s) = sales_key s" by simp
  qed
  let ?kept0 = "drop_duplicates_from sales_key [] (rows sales_df)"
  have kept: "deduplicated_sales_rows jobs_cols sales_df = map g ?kept0"
    using assms g(1) ddf_map[of sales_key g "[]" "rows sales_df"] key_g
    by (simp add: deduplicated_sales_rows_def deduplicate_sales_def drop_duplicates_def)
  have keys: "map sales_key (map g ?kept0) = map sales_key ?kept0"
    using key_g by simp
  have d: "distinct (map sales_key (deduplicated_sales_rows jobs_cols sales_df))"
    unfolding kept keys by (rule ddf_distinct)
  have f: "\<forall>r \<in> set (deduplicated_sales_rows jobs_cols sales_df).
             \<exists>r0. find (\<lambda>s. sales_key s = sales_key r) (rows sales_df) = Some r0 \<and>
                  r\<lparr>s_Technician := s_Technician r0\<rparr> = r0"
  proof
    fix r assume "r \<in> set (deduplicated_sales_rows jobs_cols sales_df)"
    then obtain r0 where r0: "r0 \<in> set ?kept0" "r = g r0" unfolding kept by auto
    from ddf_first[OF r0(1)] have "find (\<lambda>s. sales_key s = sales_key r0) (rows sales_df) = Some r0" .
    then have "find (\<lambda>s. sales_key s = sales_key r) (rows sales_df) = Some r0"
      using r0(2) key_g by simp
    moreover have "r\<lparr>s_Technician := s_Technician r0\<rparr> = r0" using r0(2) g(2) by simp
    ultimately show "\<exists>r0. find (\<lambda>s. sales_key s = sales_key r) (rows sales_df) = Some r0 \<and>
                  r\<lparr>s_Technician := s_Technician r0\<rparr> = r0" by blast
  qed
  have c: "\<forall>s \<in> set (rows sales_df).
             \<exists>r \<in> set (deduplicated_sales_rows jobs_cols sales_df). sales_key r = sales_key s"
  proof
    fix s assume "s \<in> set (rows sales_df)"
    from ddf_complete[OF this, of sales_key "[]"] obtain r0 where
      "r0 \<in> set ?kept0" "sales_key r0 = sales_key s" by auto
    then have "g r0 \<in> set (map g ?kept0)" "sales_key (g r0) = sales_key s"
      using key_g by simp_all
    then show "\<exists>r \<in> set (deduplicated_sales_rows jobs_cols sales_df). sales_key r = sales_key s"
      unfolding kept by blast
  qed
  from d f c show ?thesis by blast
qed

subsection \<open>The revenue bound\<close>

lemma job_value_set:
  "col \<in> set revenue_columns \<Longrightarrow>
   job_value col (set_job_value c v j) = (if c = col then v else job_value col j)"
  by (auto simp: revenue_columns_def job_value_def set_job_value_def)

lemma keys_set [simp]:
  "j_TechCode (set_job_value c v j) = j_TechCode j"
  "j_JobNumber (set_job_value c v j) = j_JobNumber j"
  by (simp_all add: set_job_value_def)

lemma job_value_fold:
  "col \<in> set revenue_columns \<Longrightarrow>
   job_value col (fold (\<lambda>c r. set_job_value c (f c) r) cols j) =
     (if col \<in> set cols then f col else job_value col j)"
proof (induction cols arbitrary: j rule: rev_induct)
  case Nil
  then show ?case by simp
next
  case (snoc c cols)
  then show ?case by (simp add: job_value_set)
qed

lemma keys_fold [simp]:
  "j_TechCode (fold (\<lambda>c r. set_job_value c (f c) r) cols j) = j_TechCode j"
  "j_JobNumber (fold (\<lambda>c r. set_job_value c (f c) r) cols j) = j_JobNumber j"
  by (induction cols arbitrary: j) simp_all

lemma job_value_joined:
  "col \<in> set revenue_columns \<Longrightarrow> col \<in> set cols \<Longrightarrow>
   job_value col (joined_row cols j s) = sales_value col s"
  by (simp add: joined_row_def job_value_fold)

lemma job_value_unmatched:
  "col \<in> set revenue_columns \<Longrightarrow> col \<in> set cols \<Longrightarrow>
   job_value col (unmatched_row cols j) = None"
  by (simp add: unmatched_row_def job_value_fold)

lemma column_sum_append [simp]:
  "column_sum v (xs @ ys) = column_sum v xs + column_sum v ys"
  by (simp add: column_sum_def)

lemma column_sum_Cons [simp]:
  "column_sum v (x # xs) = amount (v x) + column_sum v xs"
  by (simp add: column_sum_def)

lemma column_sum_Nil [simp]: "column_sum v [] = 0"
  by (simp add: column_sum_def)

lemma column_sum_joined:
  "col \<in> set revenue_columns \<Longrightarrow> col \<in> set cols \<Longrightarrow>
   column_sum (job_value col) (map (joined_row cols j) ms) = column_sum (sales_value col) ms"
  by (induction ms) (simp_all add: job_value_joined)

lemma column_sum_left_join:
  assumes "col \<in> set revenue_columns" "col \<in> set cols"
  shows "column_sum (job_value col) (left_join cols jobs sales) =
         sum_list (map (\<lambda>j. column_sum (sales_value col)
            (filter (\<lambda>s. s_TechCode s = j_TechCode j \<and> s_InvoiceNumber s = j_JobNumber j) sales)) jobs)"
proof (induction jobs)
  case Nil
  then show ?case by (simp add: left_join_def)
next
  case (Cons j jobs)
  let ?ms = "filter (\<lambda>s. s_TechCode s = j_TechCode j \<and> s_InvoiceNumber s = j_JobNumber j) sales"
  have step: "left_join cols (j # jobs) sales =
      (case ?ms of [] \<Rightarrow> [unmatched_row cols j] | matches \<Rightarrow> map (joined_row cols j) matches)
      @ left_join cols jobs sales"
    by (simp add: left_join_def)
  have "column_sum (job_value col)
          (case ?ms of [] \<Rightarrow> [unmatched_row cols j] | matches \<Rightarrow> map (joined_row cols j) matches) =
        column_sum (sales_value col) ?ms"
  proof (cases ?ms)
    case Nil
    then show ?thesis using assms by (simp add: job_value_unmatched amount_def)
  next
    case (Cons m ms)
    then show ?thesis using assms column_sum_joined[OF assms, of j "m # ms"] by simp
  qed
  with Cons step show ?case by simp
qed

lemma sum_one_key:
  "distinct (map kj jobs) \<Longrightarrow> (0::rat) \<le> v \<Longrightarrow>
   sum_list (map (\<lambda>j. if kj j = k then v else 0) jobs) \<le> v"
proof (induction jobs)
  case Nil
  then show ?case by simp
next
  case (Cons j jobs)
  show ?case
  proof (cases "kj j = k")
    case True
    with Cons.prems have "k \<notin> kj ` set jobs" by simp
    then have "\<forall>x \<in> set jobs. kj x \<noteq> k" by blast
    then have "sum_list (map (\<lambda>j. if kj j = k then v else 0) jobs) = 0"
      by (induction jobs) auto
    with True show ?thesis by simp
  next
    case False
    with Cons show ?thesis by simp
  qed
qed

lemma sum_matches_le:
  assumes d: "distinct (map kj jobs)" and nn: "\<forall>s \<in> set sales. (0::rat) \<le> f s"
  shows "sum_list (map (\<lambda>j. sum_list (map f (filter (\<lambda>s. ks s = kj j) sales))) jobs)
           \<le> sum_list (map f sales)"
  using nn
proof (induction sales)
  case Nil
  then show ?case by simp
next
  case (Cons s sales)
  have split: "\<And>j. sum_list (map f (filter (\<lambda>s. ks s = kj j) (s # sales))) =
      (if kj j = ks s then f s else 0) + sum_list (map f (filter (\<lambda>s. ks s = kj j) sales))"
    by auto
  have "sum_list (map (\<lambda>j. sum_list (map f (filter (\<lambda>s. ks s = kj j) (s # sales)))) jobs) =
      sum_list (map (\<lambda>j. if kj j = ks s then f s else 0) jobs) +
      sum_list (map (\<lambda>j. sum_list (map f (filter (\<lambda>s. ks s = kj j) sales))) jobs)"
    unfolding split by (simp add: sum_list_addf)
  moreover have "sum_list (map (\<lambda>j. if kj j = ks s then f s else 0) jobs) \<le> f s"
    using sum_one_key[OF d, of "f s" "ks s"] Cons.prems by simp
  moreover have "sum_list (map (\<lambda>j. sum_list (map f (filter (\<lambda>s. ks s = kj j) sales))) jobs)
      \<le> sum_list (map f sales)"
    using Cons by simp
  ultimately show ?case by simp
qed

lemma ddf_filter_sum_le:
  "\<forall>s \<in> set rs. (0::rat) \<le> f s \<Longrightarrow>
   sum_list (map f (filter P (drop_duplicates_from key seen rs))) \<le> sum_list (map f (filter P rs))"
proof (induction rs arbitrary: seen)
  case Nil
  then show ?case by simp
next
  case (Cons r rs)
  then have ih: "\<And>seen. sum_list (map f (filter P (drop_duplicates_from key seen rs)))
      \<le> sum_list (map f (filter P rs))" and r: "0 \<le> f r"
    by simp_all
  show ?case
    using ih[of seen] ih[of "key r # seen"] r by (auto simp: add_increasing)
qed

lemma copy_rows_values:
  "\<exists>g. rows (copy_technician_columns jobs_cols sales_df) = map g (rows sales_df) \<and>
       (\<forall>s c. sales_value c (g s) = sales_value c s) \<and>
       (''TechCode'' \<in> set (columns sales_df) \<longrightarrow> (\<forall>s. s_TechCode (g s) = s_TechCode s))"
proof -
  let ?c1 = "''TechCode'' \<in> set jobs_cols \<and> ''Technician'' \<in> set (columns sales_df) \<and>
             ''TechCode'' \<notin> set (columns sales_df)"
  let ?c2 = "''Technician'' \<in> set jobs_cols \<and> ''TechCode'' \<in> set (columns sales_df) \<and>
             ''Technician'' \<notin> set (columns sales_df)"
  let ?g1 = "\<lambda>s. s\<lparr>s_TechCode := py_upper (py_strip (s_Technician s))\<rparr>"
  let ?g2 = "\<lambda>s. s\<lparr>s_Technician := py_upper (py_strip (s_TechCode s))\<rparr>"
  consider (a) "?c1" | (b) "\<not> ?c1" "?c2" | (c) "\<not> ?c1" "\<not> ?c2" by blast
  then show ?thesis
  proof cases
    case a
    then have "rows (copy_technician_columns jobs_cols sales_df) = map ?g1 (rows sales_df)"
      by (simp add: copy_technician_columns_def Let_def)
    moreover have "\<forall>s c. sales_value c (?g1 s) = sales_value c s" by (simp add: sales_value_def)
    moreover have "''TechCode'' \<notin> set (columns sales_df)" using a by simp
    ultimately show ?thesis by blast
  next
    case b
    then have "rows (copy_technician_columns jobs_cols sales_df) = map ?g2 (rows sales_df)"
      by (simp add: copy_technician_columns_def Let_def)
    moreover have "\<forall>s c. sales_value c (?g2 s) = sales_value c s" by (simp add: sales_value_def)
    moreover have "\<forall>s. s_TechCode (?g2 s) = s_TechCode s" by simp
    ultimately show ?thesis by blast
  next
    case c
    then have "rows (copy_technician_columns jobs_cols sales_df) = map (\<lambda>s. s) (rows sales_df)"
      by (auto simp add: copy_technician_columns_def Let_def)
    then show ?thesis by blast
  qed
qed

lemma deduplicated_filter_sum_le:
  assumes nn: "\<forall>s \<in> set (rows sales_df). 0 \<le> amount (sales_value col s)"
      and P: "''TechCode'' \<in> set (columns sales_df) \<or> (\<forall>t. P t)"
  shows "column_sum (sales_value col)
           (filter (\<lambda>s. P (s_TechCode s)) (deduplicated_sales_rows jobs_cols sales_df))
         \<le> column_sum (sales_value col) (filter (\<lambda>s. P (s_TechCode s)) (rows sales_df))"
proof -
  from copy_rows_values[of jobs_cols sales_df] obtain g where
    g: "rows (copy_technician_columns jobs_cols sales_df) = map g (rows sales_df)"
       "\<forall>s c. sales_value c (g s) = sales_value c s"
       "''TechCode'' \<in> set (columns sales_df) \<longrightarrow> (\<forall>s. s_TechCode (g s) = s_TechCode s)"
    by blast
  let ?f = "\<lambda>s. amount (sales_value col s)"
  let ?Q = "\<lambda>s. P (s_TechCode s)"
  let ?copied = "map g (rows sales_df)"
  have nn': "\<forall>s \<in> set ?copied. 0 \<le> ?f s" using nn g(2) by simp
  have Pg: "\<And>s. ?Q (g s) = ?Q s" using P g(3) by auto
  have copied: "sum_list (map ?f (filter ?Q ?copied)) = sum_list (map ?f (filter ?Q (rows sales_df)))"
    using g(2) Pg by (simp add: filter_map comp_def)
  have "sum_list (map ?f (filter ?Q (deduplicated_sales_rows jobs_cols sales_df)))
        \<le> sum_list (map ?f (filter ?Q ?copied))"
  proof (cases "''InvoiceNumber'' \<in> set (columns sales_df) \<and> ''TechCode'' \<in> set (columns sales_df)")
    case True
    then have "deduplicated_sales_rows jobs_cols sales_df = drop_duplicates_from sales_key [] ?copied"
      using g(1) by (simp add: deduplicated_sales_rows_def deduplicate_sales_def drop_duplicates_def)
    then show ?thesis using ddf_filter_sum_le[OF nn', of ?Q sales_key "[]"] by simp
  next
    case False
    then have "deduplicated_sales_rows jobs_cols sales_df = ?copied"
      using g(1) by (auto simp add: deduplicated_sales_rows_def deduplicate_sales_def)
    then show ?thesis by simp
  qed
  with copied show ?thesis by (simp add: column_sum_def)
qed

lemma deduplicated_sum_le:
  assumes nn: "\<forall>s \<in> set (rows sales_df). 0 \<le> amount (sales_value col s)"
  shows "column_sum (sales_value col) (deduplicated_sales_rows jobs_cols sales_df)
         \<le> column_sum (sales_value col) (rows sales_df)"
  using deduplicated_filter_sum_le[OF nn, of "\<lambda>t. True" jobs_cols] by simp

lemma deduplicated_nonneg:
  assumes nn: "\<forall>s \<in> set (rows sales_df). 0 \<le> amount (sales_value col s)"
  shows "\<forall>s \<in> set (deduplicated_sales_rows jobs_cols sales_df). 0 \<le> amount (sales_value col s)"
proof -
  from copy_rows_values[of jobs_cols sales_df] obtain g where
    g: "rows (copy_technician_columns jobs_cols sales_df) = map g (rows sales_df)"
       "\<forall>s c. sales_value c (g s) = sales_value c s"
    by blast
  have sub: "set (deduplicated_sales_rows jobs_cols sales_df) \<subseteq> set (map g (rows sales_df))"
    using g(1) ddf_keys_unseen[of _ sales_key "[]" "map g (rows sales_df)"]
    by (auto simp add: deduplicated_sales_rows_def deduplicate_sales_def drop_duplicates_def)
  show ?thesis
  proof
    fix s assume "s \<in> set (deduplicated_sales_rows jobs_cols sales_df)"
    with sub obtain s0 where "s0 \<in> set (rows sales_df)" "s = g s0" by auto
    with nn g(2) show "0 \<le> amount (sales_value col s)" by simp
  qed
qed

lemma job_value_typo [simp]:
  "job_value col (j\<lparr>j_TotalMaterialInSale := x\<rparr>) = job_value col j"
  by (auto simp: job_value_def)

lemma sales_value_invoice [simp]:
  "sales_value col (s\<lparr>s_InvoiceNumber := x\<rparr>) = sales_value col s"
  by (auto simp: sales_value_def)

lemma exact_merge_sum:
  fixes jobs_df :: "'a jobs_row_scheme table"
  assumes ok: "exact_merge sc jobs_df sd = Inr out"
      and col: "col \<in> set revenue_columns" "col \<in> set sc"
  shows "\<exists>jobs' :: 'a jobs_row_scheme list.
           map (\<lambda>j. (j_TechCode j, j_JobNumber j)) jobs' =
             map (\<lambda>j. (j_TechCode j, py_strip (j_JobNumber j))) (rows jobs_df) \<and>
           column_sum (job_value col) (rows out) =
             column_sum (job_value col)
               (left_join (filter (\<lambda>c. c \<in> set sc) revenue_columns) jobs'
                  (map (\<lambda>s. s\<lparr>s_InvoiceNumber := py_strip (s_InvoiceNumber s)\<rparr>) (rows sd)))"
proof -
  let ?jr0 = "map (\<lambda>j. j\<lparr>j_JobNumber := py_strip (j_JobNumber j)\<rparr>) (rows jobs_df)"
  let ?mc = "filter (\<lambda>c. c \<in> set sc) revenue_columns"
  let ?jc = "filter (\<lambda>c. c \<notin> set revenue_columns) (columns jobs_df)"
  let ?jr = "if ?mc \<noteq> [] then map (zero_type6 ?jc) ?jr0 else ?jr0"
  let ?sr = "map (\<lambda>s. s\<lparr>s_InvoiceNumber := py_strip (s_InvoiceNumber s)\<rparr>) (rows sd)"
  let ?mr = "left_join ?mc ?jr ?sr"
  have keys0: "\<And>cols j. j_TechCode (zero_type6 cols j) = j_TechCode j \<and>
                         j_JobNumber (zero_type6 cols j) = j_JobNumber j"
    by (simp add: zero_type6_def Let_def)
  have keys: "map (\<lambda>j. (j_TechCode j, j_JobNumber j)) ?jr =
              map (\<lambda>j. (j_TechCode j, py_strip (j_JobNumber j))) (rows jobs_df)"
    by (simp add: keys0 comp_def)
  have typo: "\<And>xs :: 'a jobs_row_scheme list.
      column_sum (job_value col) (map (\<lambda>j. j\<lparr>j_TotalMaterialInSale := j_TotalMateriaInSale j\<rparr>) xs) =
      column_sum (job_value col) xs"
    by (simp add: column_sum_def comp_def)
  from ok have "rows out = ?mr \<or>
      rows out = map (\<lambda>j. j\<lparr>j_TotalMaterialInSale := j_TotalMateriaInSale j\<rparr>) ?mr"
    unfolding exact_merge_def Let_def by (auto split: if_splits)
  then have eq: "column_sum (job_value col) (rows out) = column_sum (job_value col) ?mr"
    using typo by auto
  from keys eq have
    "map (\<lambda>j. (j_TechCode j, j_JobNumber j)) ?jr =
       map (\<lambda>j. (j_TechCode j, py_strip (j_JobNumber j))) (rows jobs_df) \<and>
     column_sum (job_value col) (rows out) =
       column_sum (job_value col) (left_join ?mc ?jr ?sr)"
    by (rule conjI)
  then show ?thesis by (rule exI)
qed

lemma technician_merge_rows:
  assumes "technician_merge sc jobs_df sd = Inr out"
  shows "rows out =
           map (\<lambda>j. summary_row (filter (\<lambda>c. c \<in> set sc) revenue_columns) j
                      (map_of (sales_summary (filter (\<lambda>c. c \<in> set sc) revenue_columns) (rows sd))
                         (j_TechCode j)))
             (rows jobs_df)"
  using assms unfolding technician_merge_def Let_def by (auto split: if_splits)

lemma map_of_map_key:
  "map_of (map (\<lambda>k. (k, F k)) ks) k = (if k \<in> set ks then Some (F k) else None)"
  by (induction ks) auto

lemma summary_value:
  assumes col: "col \<in> set revenue_columns" "col \<in> set agg"
  shows "amount (job_value col (summary_row agg j (map_of (sales_summary agg sales) t))) =
         column_sum (sales_value col) (filter (\<lambda>s. s_TechCode s = t) sales)"
proof -
  let ?totals = "map_of (sales_summary agg sales) t"
  have v: "job_value col (summary_row agg j ?totals) =
           (case ?totals of None \<Rightarrow> None | Some tt \<Rightarrow> map_of tt col)"
    unfolding summary_row_def using col by (simp add: job_value_fold)
  have look: "?totals =
      (if t \<in> set (map s_TechCode sales)
       then Some (map (\<lambda>c. (c, column_sum (sales_value c) (filter (\<lambda>s. s_TechCode s = t) sales))) agg)
       else None)"
    unfolding sales_summary_def by (simp add: map_of_map_key)
  show ?thesis
  proof (cases "t \<in> set (map s_TechCode sales)")
    case True
    with v look col(2) show ?thesis by (simp add: map_of_map_key amount_def)
  next
    case False
    then have "filter (\<lambda>s. s_TechCode s = t) sales = []"
      by (auto simp: filter_empty_conv)
    with v look False show ?thesis by (simp add: amount_def)
  qed
qed

lemma summary_tech [simp]: "j_TechCode (summary_row agg j totals) = j_TechCode j"
  by (simp add: summary_row_def)

text \<open>
  Claim C1, as amended. Let the amounts of a revenue column of the sales frame be
  non-negative and let the merge return a frame. On the exact path (JobNumber and
  InvoiceNumber present), if the job rows have pairwise different (TechCode, trimmed
  JobNumber) keys, the sum of the column over the output is at most its sum over the raw
  sales rows. On the technician-level fallback path every output row carries at most the
  raw total of its technician, and the sum over the output is at most the raw sum if the
  job rows have pairwise different technician codes.
\<close>

theorem merge_sales_with_jobs_revenue_bound:
  fixes jobs_df :: "'a jobs_row_scheme table"
  assumes ok: "merge_sales_with_jobs jobs_df sales_df = Inr out"
      and col: "col \<in> set revenue_columns" "col \<in> set (columns sales_df)"
      and nn: "\<forall>s \<in> set (rows sales_df). 0 \<le> amount (sales_value col s)"
  shows "(''JobNumber'' \<in> set (columns jobs_df) \<and> ''InvoiceNumber'' \<in> set (columns sales_df) \<and>
          distinct (map (\<lambda>j. (j_TechCode j, py_strip (j_JobNumber j))) (rows jobs_df))
          \<longrightarrow> column_sum (job_value col) (rows out) \<le> column_sum (sales_value col) (rows sales_df))
       \<and> (\<not> (''JobNumber'' \<in> set (columns jobs_df) \<and> ''InvoiceNumber'' \<in> set (columns sales_df)) \<and>
          ''TechCode'' \<in> set (columns jobs_df) \<and> ''TechCode'' \<in> set (columns sales_df)
          \<longrightarrow> (\<forall>r \<in> set (rows out).
                  amount (job_value col r)
                    \<le> column_sum (sales_value col)
                         (filter (\<lambda>s. s_TechCode s = j_TechCode r) (rows sales_df)))
              \<and> (distinct (map j_TechCode (rows jobs_df))
                  \<longrightarrow> column_sum (job_value col) (rows out)
                        \<le> column_sum (sales_value col) (rows sales_df)))"
proof (intro conjI impI)
  let ?reach = "deduplicated_sales_rows (columns jobs_df) sales_df"
  let ?sd = "deduplicate_sales (columns sales_df) (copy_technician_columns (columns jobs_df) sales_df)"
  have reach: "rows ?sd = ?reach" by (simp add: deduplicated_sales_rows_def)
  {
    assume h: "''JobNumber'' \<in> set (columns jobs_df) \<and> ''InvoiceNumber'' \<in> set (columns sales_df) \<and>
          distinct (map (\<lambda>j. (j_TechCode j, py_strip (j_JobNumber j))) (rows jobs_df))"
    let ?sr = "map (\<lambda>s. s\<lparr>s_InvoiceNumber := py_strip (s_InvoiceNumber s)\<rparr>) ?reach"
    let ?mc = "filter (\<lambda>c. c \<in> set (columns sales_df)) revenue_columns"
    from ok h have em: "exact_merge (columns sales_df) jobs_df ?sd = Inr out"
      by (simp add: merge_sales_with_jobs_def Let_def)
    from exact_merge_sum[OF em col] obtain jobs' :: "'a jobs_row_scheme list" where
      j: "map (\<lambda>j. (j_TechCode j, j_JobNumber j)) jobs' =
            map (\<lambda>j. (j_TechCode j, py_strip (j_JobNumber j))) (rows jobs_df)"
         "column_sum (job_value col) (rows out) =
            column_sum (job_value col) (left_join ?mc jobs' ?sr)"
      unfolding reach by blast
    have inmc: "col \<in> set ?mc" using col by simp
    have d: "distinct (map (\<lambda>j. (j_TechCode j, j_JobNumber j)) jobs')" using j(1) h by simp
    have nn_sr: "\<forall>s \<in> set ?sr. 0 \<le> amount (sales_value col s)"
      using deduplicated_nonneg[OF nn, of "columns jobs_df"] by simp
    have pred: "\<And>j. (\<lambda>s. s_TechCode s = j_TechCode j \<and> s_InvoiceNumber s = j_JobNumber j) =
                     (\<lambda>s. sales_key s = (j_TechCode j, j_JobNumber j))"
      by (auto simp: sales_key_def)
    have "column_sum (job_value col) (left_join ?mc jobs' ?sr) =
          sum_list (map (\<lambda>j. sum_list (map (\<lambda>s. amount (sales_value col s))
             (filter (\<lambda>s. sales_key s = (j_TechCode j, j_JobNumber j)) ?sr))) jobs')"
      unfolding column_sum_left_join[OF col(1) inmc] pred by (simp add: column_sum_def)
    also have "\<dots> \<le> sum_list (map (\<lambda>s. amount (sales_value col s)) ?sr)"
      by (rule sum_matches_le[OF d nn_sr])
    also have "\<dots> = column_sum (sales_value col) ?reach"
      by (simp add: column_sum_def comp_def)
    also have "\<dots> \<le> column_sum (sales_value col) (rows sales_df)"
      by (rule deduplicated_sum_le[OF nn])
    finally show "column_sum (job_value col) (rows out) \<le> column_sum (sales_value col) (rows sales_df)"
      using j(2) by simp
  }
  {
    assume h: "\<not> (''JobNumber'' \<in> set (columns jobs_df) \<and> ''InvoiceNumber'' \<in> set (columns sales_df)) \<and>
          ''TechCode'' \<in> set (columns jobs_df) \<and> ''TechCode'' \<in> set (columns sales_df)"
    let ?agg = "filter (\<lambda>c. c \<in> set (columns sales_df)) revenue_columns"
    have inagg: "col \<in> set ?agg" using col by simp
    from ok h have tm: "technician_merge (columns sales_df) jobs_df ?sd = Inr out"
      by (auto simp add: merge_sales_with_jobs_def Let_def)
    note out_rows = technician_merge_rows[OF tm, unfolded reach]
    have per_tech: "\<And>t. column_sum (sales_value col) (filter (\<lambda>s. s_TechCode s = t) ?reach)
        \<le> column_sum (sales_value col) (filter (\<lambda>s. s_TechCode s = t) (rows sales_df))"
      using deduplicated_filter_sum_le[OF nn, of "\<lambda>c. c = _" "columns jobs_df"] h by simp
    show "\<forall>r \<in> set (rows out).
            amount (job_value col r)
              \<le> column_sum (sales_value col)
                   (filter (\<lambda>s. s_TechCode s = j_TechCode r) (rows sales_df))"
    proof
      fix r assume "r \<in> set (rows out)"
      then obtain j where r: "r = summary_row ?agg j (map_of (sales_summary ?agg ?reach) (j_TechCode j))"
        unfolding out_rows by auto
      have "amount (job_value col r) =
            column_sum (sales_value col) (filter (\<lambda>s. s_TechCode s = j_TechCode j) ?reach)"
        unfolding r by (rule summary_value[OF col(1) inagg])
      also have "\<dots> \<le> column_sum (sales_value col)
                         (filter (\<lambda>s. s_TechCode s = j_TechCode j) (rows sales_df))"
        by (rule per_tech)
      finally show "amount (job_value col r)
              \<le> column_sum (sales_value col)
                   (filter (\<lambda>s. s_TechCode s = j_TechCode r) (rows sales_df))"
        unfolding r by simp
    qed
    {
      assume d: "distinct (map j_TechCode (rows jobs_df))"
      have pt: "\<And>j :: 'a jobs_row_scheme.
          amount (job_value col
            (summary_row ?agg j (map_of (sales_summary ?agg ?reach) (j_TechCode j)))) =
          sum_list (map (\<lambda>s. amount (sales_value col s))
            (filter (\<lambda>s. s_TechCode s = j_TechCode j) ?reach))"
        using summary_value[OF col(1) inagg] by (simp add: column_sum_def)
      have "column_sum (job_value col) (rows out) =
            sum_list (map (\<lambda>j. amount (job_value col
              (summary_row ?agg j (map_of (sales_summary ?agg ?reach) (j_TechCode j)))))
              (rows jobs_df))"
        unfolding out_rows by (simp add: column_sum_def comp_def)
      also have "\<dots> =
            sum_list (map (\<lambda>j. sum_list (map (\<lambda>s. amount (sales_value col s))
               (filter (\<lambda>s. s_TechCode s = j_TechCode j) ?reach))) (rows jobs_df))"
        by (simp only: pt)
      also have "\<dots> \<le> sum_list (map (\<lambda>s. amount (sales_value col s)) ?reach)"
        by (rule sum_matches_le[OF d deduplicated_nonneg[OF nn]])
      also have "\<dots> \<le> column_sum (sales_value col) (rows sales_df)"
        using deduplicated_sum_le[OF nn, of "columns jobs_df"] by (simp add: column_sum_def)
      finally show "column_sum (job_value col) (rows out) \<le> column_sum (sales_value col) (rows sales_df)" .
    }
  }
qed

lemmas merge_eval =
  merge_sales_with_jobs_def copy_technician_columns_def deduplicate_sales_def
  technician_merge_def exact_merge_def left_join_def joined_row_def unmatched_row_def
  sales_summary_def summary_row_def zero_type6_def drop_duplicates_def sales_key_def
  set_job_value_def sales_value_def job_value_def revenue_columns_def column_sum_def amount_def
  example_jobs_def example_jobs_row_def example_sale_def example_sales_def add_column_def Let_def

text \<open>
  Claim C1 as stated fails on the fallback path: two jobs of technician JS and one sales
  row of JS with a labor amount of 100 give two output rows with 100 each, 200 against a
  raw sum of 100.
\<close>

theorem merge_sales_with_jobs_fallback_counterexample:
  "merge_sales_with_jobs (example_jobs [''TechCode''] [(''JS'', ''1''), (''JS'', ''2'')])
      \<lparr>columns = [''TechCode'', ''LaborSold''], rows = [example_sale ''JS'' [] 100]\<rparr> =
     Inr \<lparr>columns = [''TechCode'', ''LaborSold''],
          rows = [example_jobs_row ''JS'' ''1'' (Some 100) None,
                  example_jobs_row ''JS'' ''2'' (Some 100) None]\<rparr> \<and>
   column_sum (job_value ''LaborSold'')
     [example_jobs_row ''JS'' ''1'' (Some 100) None, example_jobs_row ''JS'' ''2'' (Some 100) None] = 200 \<and>
   column_sum (sales_value ''LaborSold'') [example_sale ''JS'' [] 100] = 100 \<and>
   \<not> column_sum (job_value ''LaborSold'')
       [example_jobs_row ''JS'' ''1'' (Some 100) None, example_jobs_row ''JS'' ''2'' (Some 100) None]
     \<le> column_sum (sales_value ''LaborSold'') [example_sale ''JS'' [] 100]"
  by (simp add: merge_eval)

text \<open>
  The two hypotheses of the exact path are needed: two job rows with one key both take the
  sales row (200 against 100), and a sales row with a negative amount that no job matches
  leaves a merged sum of 0 above the raw sum.
\<close>

lemma exact_merge_duplicate_jobs_example:
  "merge_sales_with_jobs
      (example_jobs [''TechCode'', ''JobNumber''] [(''JS'', ''1001''), (''JS'', ''1001'')])
      \<lparr>columns = [''TechCode'', ''InvoiceNumber'', ''LaborSold''],
       rows = [example_sale ''JS'' ''1001'' 100]\<rparr> =
     Inr \<lparr>columns = [''TechCode'', ''JobNumber'', ''InvoiceNumber'', ''LaborSold''],
          rows = [example_jobs_row ''JS'' ''1001'' (Some 100) (Some ''1001''),
                  example_jobs_row ''JS'' ''1001'' (Some 100) (Some ''1001'')]\<rparr>"
  by (simp add: merge_eval py_strip_def is_space_def whitespace_def)

lemma exact_merge_refund_example:
  "merge_sales_with_jobs
      (example_jobs [''TechCode'', ''JobNumber''] [(''JS'', ''1001'')])
      \<lparr>columns = [''TechCode'', ''InvoiceNumber'', ''LaborSold''],
       rows = [example_sale ''JS'' ''2002'' (- 40)]\<rparr> =
     Inr \<lparr>columns = [''TechCode'', ''JobNumber'', ''InvoiceNumber'', ''LaborSold''],
          rows = [example_jobs_row ''JS'' ''1001'' None None]\<rparr>"
  by (simp add: merge_eval py_strip_def is_space_def whitespace_def)

text \<open>
  The theorem at two inputs: the exact path with the duplicated invoice of the example
  sales frame (50 against a raw sum of 130), and the fallback path with one job for each
  technician (130 against 130).
\<close>

theorem merge_sales_with_jobs_revenue_bound_witness:
  "merge_sales_with_jobs
      (example_jobs [''TechCode'', ''JobNumber''] [(''JS'', ''1001''), (''JD'', ''1002'')])
      example_sales =
     Inr \<lparr>columns = [''TechCode'', ''JobNumber'', ''InvoiceNumber'', ''LaborSold''],
          rows = [example_jobs_row ''JS'' ''1001'' (Some 50) (Some ''1001''),
                  example_jobs_row ''JD'' ''1002'' None None]\<rparr> \<and>
   column_sum (job_value ''LaborSold'')
      [example_jobs_row ''JS'' ''1001'' (Some 50) (Some ''1001''),
       example_jobs_row ''JD'' ''1002'' None None]
     \<le> column_sum (sales_value ''LaborSold'') (rows example_sales) \<and>
   merge_sales_with_jobs
      (example_jobs [''TechCode''] [(''JS'', ''1''), (''JD'', ''2'')])
      \<lparr>columns = [''TechCode'', ''LaborSold''],
       rows = [example_sale ''JS'' [] 50, example_sale ''JS'' [] 70, example_sale ''JD'' [] 10]\<rparr> =
     Inr \<lparr>columns = [''TechCode'', ''LaborSold''],
          rows = [example_jobs_row ''JS'' ''1'' (Some 120) None,
                  example_jobs_row ''JD'' ''2'' (Some 10) None]\<rparr> \<and>
   column_sum (job_value ''LaborSold'')
      [example_jobs_row ''JS'' ''1'' (Some 120) None, example_jobs_row ''JD'' ''2'' (Some 10) None]
     \<le> column_sum (sales_value ''LaborSold'')
          [example_sale ''JS'' [] 50, example_sale ''JS'' [] 70, example_sale ''JD'' [] 10]"
proof -
  let ?JA = "example_jobs [''TechCode'', ''JobNumber''] [(''JS'', ''1001''), (''JD'', ''1002'')]"
  let ?OA = "\<lparr>columns = [''TechCode'', ''JobNumber'', ''InvoiceNumber'', ''LaborSold''],
          rows = [example_jobs_row ''JS'' ''1001'' (Some 50) (Some ''1001''),
                  example_jobs_row ''JD'' ''1002'' None None]\<rparr>"
  let ?JB = "example_jobs [''TechCode''] [(''JS'', ''1''), (''JD'', ''2'')]"
  let ?SB = "\<lparr>columns = [''TechCode'', ''LaborSold''],
       rows = [example_sale ''JS'' [] 50, example_sale ''JS'' [] 70, example_sale ''JD'' [] 10]\<rparr>"
  let ?OB = "\<lparr>columns = [''TechCode'', ''LaborSold''],
          rows = [example_jobs_row ''JS'' ''1'' (Some 120) None,
                  example_jobs_row ''JD'' ''2'' (Some 10) None]\<rparr>"
  have okA: "merge_sales_with_jobs ?JA example_sales = Inr ?OA"
    by (simp add: merge_eval py_strip_def is_space_def whitespace_def)
  have okB: "merge_sales_with_jobs ?JB ?SB = Inr ?OB"
    by (simp add: merge_eval)
  have c1: "''LaborSold'' \<in> set revenue_columns" by (simp add: revenue_columns_def)
  have cA: "''LaborSold'' \<in> set (columns example_sales)" by (simp add: example_sales_def)
  have cB: "''LaborSold'' \<in> set (columns ?SB)" by simp
  have nA: "\<forall>s \<in> set (rows example_sales). 0 \<le> amount (sales_value ''LaborSold'' s)"
    by (simp add: example_sales_def example_sale_def sales_value_def amount_def)
  have nB: "\<forall>s \<in> set (rows ?SB). 0 \<le> amount (sales_value ''LaborSold'' s)"
    by (simp add: example_sale_def sales_value_def amount_def)
  have hA: "''JobNumber'' \<in> set (columns ?JA) \<and> ''InvoiceNumber'' \<in> set (columns example_sales) \<and>
            distinct (map (\<lambda>j. (j_TechCode j, py_strip (j_JobNumber j))) (rows ?JA))"
    by (simp add: example_jobs_def example_jobs_row_def example_sales_def)
  have hB: "\<not> (''JobNumber'' \<in> set (columns ?JB) \<and> ''InvoiceNumber'' \<in> set (columns ?SB)) \<and>
            ''TechCode'' \<in> set (columns ?JB) \<and> ''TechCode'' \<in> set (columns ?SB)"
    and dB: "distinct (map j_TechCode (rows ?JB))"
    by (simp_all add: example_jobs_def example_jobs_row_def)
  from merge_sales_with_jobs_revenue_bound[OF okA c1 cA nA] hA
  have A: "column_sum (job_value ''LaborSold'') (rows ?OA)
             \<le> column_sum (sales_value ''LaborSold'') (rows example_sales)"
    by blast
  from merge_sales_with_jobs_revenue_bound[OF okB c1 cB nB] hB dB
  have B: "column_sum (job_value ''LaborSold'') (rows ?OB)
             \<le> column_sum (sales_value ''LaborSold'') (rows ?SB)"
    by blast
  from okA A okB B show ?thesis by simp
qed

subsection \<open>Deduplication and the join key\<close>

text \<open>
  The two join paths take the deduplicated rows; the exact path trims their invoice numbers
  first.
\<close>

lemma merge_sales_with_jobs_paths:
  "merge_sales_with_jobs jobs_df sales_df =
     (if ''JobNumber'' \<in> set (columns jobs_df) \<and> ''InvoiceNumber'' \<in> set (columns sales_df)
      then exact_merge (columns sales_df) jobs_df
             (deduplicate_sales (columns sales_df) (copy_technician_columns (columns jobs_df) sales_df))
      else if ''TechCode'' \<in> set (columns jobs_df) \<and> ''TechCode'' \<in> set (columns sales_df)
      then technician_merge (columns sales_df) jobs_df
             (deduplicate_sales (columns sales_df) (copy_technician_columns (columns jobs_df) sales_df))
      else Inr jobs_df)"
  "rows (deduplicate_sales (columns sales_df) (copy_technician_columns (columns jobs_df) sales_df)) =
     deduplicated_sales_rows (columns jobs_df) sales_df"
  by (simp_all add: merge_sales_with_jobs_def deduplicated_sales_rows_def Let_def)

text \<open>After the deduplication at most one row has a given key: the first of the frame.\<close>

lemma ddf_filter_key:
  "filter (\<lambda>s. key s = k) (drop_duplicates_from key seen rs) =
     (if k \<in> set seen then []
      else case find (\<lambda>s. key s = k) rs of None \<Rightarrow> [] | Some s \<Rightarrow> [s])"
  by (induction rs arbitrary: seen) auto

lemma left_join_one:
  assumes "\<And>j. j \<in> set jobs \<Longrightarrow>
     filter (\<lambda>s. s_TechCode s = j_TechCode j \<and> s_InvoiceNumber s = j_JobNumber j) sales =
       (case pick j of None \<Rightarrow> [] | Some s \<Rightarrow> [s])"
  shows "left_join cols jobs sales =
     map (\<lambda>j. case pick j of None \<Rightarrow> unmatched_row cols j | Some s \<Rightarrow> joined_row cols j s) jobs"
  using assms
proof (induction jobs)
  case Nil
  then show ?case by (simp add: left_join_def)
next
  case (Cons j jobs)
  have step: "left_join cols (j # jobs) sales =
      (case filter (\<lambda>s. s_TechCode s = j_TechCode j \<and> s_InvoiceNumber s = j_JobNumber j) sales of
         [] \<Rightarrow> [unmatched_row cols j] | matches \<Rightarrow> map (joined_row cols j) matches)
      @ left_join cols jobs sales"
    by (simp add: left_join_def)
  have rest: "left_join cols jobs sales =
     map (\<lambda>j. case pick j of None \<Rightarrow> unmatched_row cols j | Some s \<Rightarrow> joined_row cols j s) jobs"
    using Cons by simp
  have "filter (\<lambda>s. s_TechCode s = j_TechCode j \<and> s_InvoiceNumber s = j_JobNumber j) sales =
       (case pick j of None \<Rightarrow> [] | Some s \<Rightarrow> [s])"
    using Cons.prems by simp
  then show ?case unfolding step rest by (cases "pick j") simp_all
qed

lemma invoice_set [simp]:
  "j_InvoiceNumber (set_job_value c v j) = j_InvoiceNumber j"
  by (simp add: set_job_value_def)

lemma invoice_fold [simp]:
  "j_InvoiceNumber (fold (\<lambda>c r. set_job_value c (f c) r) cols j) = j_InvoiceNumber j"
  by (induction cols arbitrary: j) simp_all

lemma unmatched_row_fields:
  "j_TechCode (unmatched_row cols j) = j_TechCode j"
  "j_JobNumber (unmatched_row cols j) = j_JobNumber j"
  "j_InvoiceNumber (unmatched_row cols j) = None"
  by (simp_all add: unmatched_row_def)

lemma joined_row_fields:
  "j_TechCode (joined_row cols j s) = j_TechCode j"
  "j_JobNumber (joined_row cols j s) = j_JobNumber j"
  "j_InvoiceNumber (joined_row cols j s) = Some (s_InvoiceNumber s)"
  by (simp_all add: joined_row_def)

text \<open>
  When the invoice numbers of the sales frame carry no surrounding whitespace, the exact
  path gives every job exactly one output row, in the order of the jobs: the row keeps the
  technician code and the trimmed job number, and it carries the invoice number and the
  revenue columns of the first sales row with its (TechCode, JobNumber) key, or no invoice
  number and no amounts when there is none.
\<close>

lemma merge_sales_with_jobs_first_seen:
  fixes jobs_df :: "'a jobs_row_scheme table"
  assumes sc: "''TechCode'' \<in> set (columns sales_df)" "''InvoiceNumber'' \<in> set (columns sales_df)"
      and jc: "''TechCode'' \<in> set (columns jobs_df)" "''JobNumber'' \<in> set (columns jobs_df)"
      and trimmed: "\<forall>s \<in> set (rows sales_df). py_strip (s_InvoiceNumber s) = s_InvoiceNumber s"
  shows "\<exists>out. merge_sales_with_jobs jobs_df sales_df = Inr out \<and>
           length (rows out) = length (rows jobs_df) \<and>
           (\<forall>i < length (rows jobs_df).
              j_TechCode (rows out ! i) = j_TechCode (rows jobs_df ! i) \<and>
              j_JobNumber (rows out ! i) = py_strip (j_JobNumber (rows jobs_df ! i)) \<and>
              (case find (\<lambda>s. sales_key s =
                               (j_TechCode (rows jobs_df ! i), py_strip (j_JobNumber (rows jobs_df ! i))))
                      (rows sales_df) of
                 None \<Rightarrow>
                   j_InvoiceNumber (rows out ! i) = None \<and>
                   (\<forall>col \<in> set revenue_columns \<inter> set (columns sales_df).
                      job_value col (rows out ! i) = None)
               | Some s \<Rightarrow>
                   j_InvoiceNumber (rows out ! i) = Some (s_InvoiceNumber s) \<and>
                   (\<forall>col \<in> set revenue_columns \<inter> set (columns sales_df).
                      job_value col (rows out ! i) = sales_value col s)))"
proof -
  let ?sc = "columns sales_df"
  let ?sd = "deduplicate_sales ?sc (copy_technician_columns (columns jobs_df) sales_df)"
  let ?jr0 = "map (\<lambda>j. j\<lparr>j_JobNumber := py_strip (j_JobNumber j)\<rparr>) (rows jobs_df)"
  let ?mc = "filter (\<lambda>c. c \<in> set ?sc) revenue_columns"
  let ?jc = "filter (\<lambda>c. c \<notin> set revenue_columns) (columns jobs_df)"
  let ?jr = "if ?mc \<noteq> [] then map (zero_type6 ?jc) ?jr0 else ?jr0"
  let ?sr = "map (\<lambda>s. s\<lparr>s_InvoiceNumber := py_strip (s_InvoiceNumber s)\<rparr>) (rows ?sd)"
  let ?mr = "left_join ?mc ?jr ?sr"
  let ?kept0 = "drop_duplicates_from sales_key [] (rows sales_df)"
  from copy_rows[OF sc(1)] obtain g where
    g: "rows (copy_technician_columns (columns jobs_df) sales_df) = map g (rows sales_df)"
       "\<forall>s. g s\<lparr>s_Technician := s_Technician s\<rparr> = s"
    by blast
  have g_fields: "\<And>s. s_TechCode (g s) = s_TechCode s \<and> s_InvoiceNumber (g s) = s_InvoiceNumber s"
  proof -
    fix s
    have "s_TechCode (g s\<lparr>s_Technician := s_Technician s\<rparr>) = s_TechCode (g s)"
         "s_InvoiceNumber (g s\<lparr>s_Technician := s_Technician s\<rparr>) = s_InvoiceNumber (g s)"
      by simp_all
    with g(2) show "s_TechCode (g s) = s_TechCode s \<and> s_InvoiceNumber (g s) = s_InvoiceNumber s"
      by simp
  qed
  have g_value: "\<And>col s. sales_value col (g s) = sales_value col s"
  proof -
    fix col s
    have "sales_value col (g s\<lparr>s_Technician := s_Technician s\<rparr>) = sales_value col (g s)"
      by (simp add: sales_value_def)
    with g(2) show "sales_value col (g s) = sales_value col s" by simp
  qed
  have key_g: "\<And>s. sales_key (g s) = sales_key s"
    by (simp add: sales_key_def g_fields)
  have kept: "rows ?sd = map g ?kept0"
    using sc g(1) ddf_map[of sales_key g "[]" "rows sales_df"] key_g
    by (simp add: deduplicate_sales_def drop_duplicates_def)
  have sub: "set ?kept0 \<subseteq> set (rows sales_df)"
    using ddf_keys_unseen[of _ sales_key "[]" "rows sales_df"] by auto
  have sr: "?sr = map g ?kept0"
  proof -
    have "\<And>s. s \<in> set ?kept0 \<Longrightarrow> (g s)\<lparr>s_InvoiceNumber := py_strip (s_InvoiceNumber (g s))\<rparr> = g s"
    proof -
      fix s assume "s \<in> set ?kept0"
      with sub trimmed have "py_strip (s_InvoiceNumber s) = s_InvoiceNumber s" by blast
      then show "(g s)\<lparr>s_InvoiceNumber := py_strip (s_InvoiceNumber (g s))\<rparr> = g s"
        by (simp add: g_fields)
    qed
    then show ?thesis unfolding kept by simp
  qed
  let ?pick = "\<lambda>j :: 'a jobs_row_scheme.
      map_option g (find (\<lambda>s. sales_key s = (j_TechCode j, j_JobNumber j)) (rows sales_df))"
  have matches: "\<And>j :: 'a jobs_row_scheme.
     filter (\<lambda>s. s_TechCode s = j_TechCode j \<and> s_InvoiceNumber s = j_JobNumber j) ?sr =
       (case ?pick j of None \<Rightarrow> [] | Some s \<Rightarrow> [s])"
  proof -
    fix j :: "'a jobs_row_scheme"
    have "filter (\<lambda>s. s_TechCode s = j_TechCode j \<and> s_InvoiceNumber s = j_JobNumber j) (map g ?kept0) =
          map g (filter (\<lambda>s. sales_key s = (j_TechCode j, j_JobNumber j)) ?kept0)"
      by (simp add: filter_map comp_def g_fields sales_key_def)
    also have "\<dots> = (case ?pick j of None \<Rightarrow> [] | Some s \<Rightarrow> [s])"
      by (simp add: ddf_filter_key split: option.splits)
    finally show "filter (\<lambda>s. s_TechCode s = j_TechCode j \<and> s_InvoiceNumber s = j_JobNumber j) ?sr =
       (case ?pick j of None \<Rightarrow> [] | Some s \<Rightarrow> [s])"
      unfolding sr .
  qed
  have mr: "?mr = map (\<lambda>j. case ?pick j of None \<Rightarrow> unmatched_row ?mc j
                              | Some s \<Rightarrow> joined_row ?mc j s) ?jr"
    by (rule left_join_one) (rule matches)
  have keys0: "\<And>cols (j :: 'a jobs_row_scheme). j_TechCode (zero_type6 cols j) = j_TechCode j \<and>
                         j_JobNumber (zero_type6 cols j) = j_JobNumber j"
    by (simp add: zero_type6_def Let_def)
  define jr where "jr = ?jr"
  have len_jr: "length jr = length (rows jobs_df)" by (simp add: jr_def)
  have jr_keys: "\<And>i. i < length (rows jobs_df) \<Longrightarrow>
      j_TechCode (jr ! i) = j_TechCode (rows jobs_df ! i) \<and>
      j_JobNumber (jr ! i) = py_strip (j_JobNumber (rows jobs_df ! i))"
    by (simp add: jr_def keys0)
  define mc where "mc = ?mc"
  have in_mc: "\<And>col. col \<in> set revenue_columns \<inter> set (columns sales_df) \<Longrightarrow>
      col \<in> set revenue_columns \<and> col \<in> set mc"
    by (simp add: mc_def)
  have mr_rows: "?mr = map (\<lambda>j. case ?pick j of None \<Rightarrow> unmatched_row mc j
                              | Some s \<Rightarrow> joined_row mc j s) jr"
    unfolding jr_def mc_def by (rule mr)
  have tc: "''TechCode'' \<in> set (columns ?sd)"
    using sc by (auto simp add: deduplicate_sales_def copy_technician_columns_def Let_def add_column_def)
  have tj: "''TechCode'' \<in> set ?jc" using jc by (simp add: revenue_columns_def)
  obtain out where out: "merge_sales_with_jobs jobs_df sales_df = Inr out"
    and rows_out: "rows out = ?mr \<or>
      rows out = map (\<lambda>j. j\<lparr>j_TotalMaterialInSale := j_TotalMateriaInSale j\<rparr>) ?mr"
  proof -
    have "\<exists>out. exact_merge ?sc jobs_df ?sd = Inr out \<and> (rows out = ?mr \<or>
      rows out = map (\<lambda>j. j\<lparr>j_TotalMaterialInSale := j_TotalMateriaInSale j\<rparr>) ?mr)"
      using tc tj unfolding exact_merge_def Let_def by (auto split: if_splits)
    then obtain out where "exact_merge ?sc jobs_df ?sd = Inr out" "rows out = ?mr \<or>
      rows out = map (\<lambda>j. j\<lparr>j_TotalMaterialInSale := j_TotalMateriaInSale j\<rparr>) ?mr"
      by blast
    moreover have "merge_sales_with_jobs jobs_df sales_df = exact_merge ?sc jobs_df ?sd"
      using sc jc by (simp add: merge_sales_with_jobs_def Let_def)
    ultimately show ?thesis using that by simp
  qed
  have len: "length (rows out) = length (rows jobs_df)"
    using rows_out len_jr unfolding mr_rows by auto
  have row: "\<forall>i < length (rows jobs_df).
              j_TechCode (rows out ! i) = j_TechCode (rows jobs_df ! i) \<and>
              j_JobNumber (rows out ! i) = py_strip (j_JobNumber (rows jobs_df ! i)) \<and>
              (case find (\<lambda>s. sales_key s =
                               (j_TechCode (rows jobs_df ! i), py_strip (j_JobNumber (rows jobs_df ! i))))
                      (rows sales_df) of
                 None \<Rightarrow>
                   j_InvoiceNumber (rows out ! i) = None \<and>
                   (\<forall>col \<in> set revenue_columns \<inter> set (columns sales_df).
                      job_value col (rows out ! i) = None)
               | Some s \<Rightarrow>
                   j_InvoiceNumber (rows out ! i) = Some (s_InvoiceNumber s) \<and>
                   (\<forall>col \<in> set revenue_columns \<inter> set (columns sales_df).
                      job_value col (rows out ! i) = sales_value col s))"
  proof (intro allI impI)
    fix i assume i: "i < length (rows jobs_df)"
    define j where "j = jr ! i"
    define r where "r = (case ?pick j of None \<Rightarrow> unmatched_row mc j | Some s \<Rightarrow> joined_row mc j s)"
    have li: "i < length ?mr" using i len_jr unfolding mr_rows by simp
    have mri: "?mr ! i = r" using i len_jr unfolding mr_rows r_def j_def by simp
    have fields: "j_TechCode (rows out ! i) = j_TechCode r \<and> j_JobNumber (rows out ! i) = j_JobNumber r \<and>
        j_InvoiceNumber (rows out ! i) = j_InvoiceNumber r \<and>
        (\<forall>col. job_value col (rows out ! i) = job_value col r)"
      using rows_out
    proof
      assume "rows out = ?mr"
      then show ?thesis using mri by simp
    next
      assume "rows out = map (\<lambda>j. j\<lparr>j_TotalMaterialInSale := j_TotalMateriaInSale j\<rparr>) ?mr"
      then have "rows out ! i = (?mr ! i)\<lparr>j_TotalMaterialInSale := j_TotalMateriaInSale (?mr ! i)\<rparr>"
        using li by simp
      then show ?thesis unfolding mri by simp
    qed
    have k: "j_TechCode j = j_TechCode (rows jobs_df ! i)"
            "j_JobNumber j = py_strip (j_JobNumber (rows jobs_df ! i))"
      using jr_keys[OF i] by (simp_all add: j_def)
    show "j_TechCode (rows out ! i) = j_TechCode (rows jobs_df ! i) \<and>
              j_JobNumber (rows out ! i) = py_strip (j_JobNumber (rows jobs_df ! i)) \<and>
              (case find (\<lambda>s. sales_key s =
                               (j_TechCode (rows jobs_df ! i), py_strip (j_JobNumber (rows jobs_df ! i))))
                      (rows sales_df) of
                 None \<Rightarrow>
                   j_InvoiceNumber (rows out ! i) = None \<and>
                   (\<forall>col \<in> set revenue_columns \<inter> set (columns sales_df).
                      job_value col (rows out ! i) = None)
               | Some s \<Rightarrow>
                   j_InvoiceNumber (rows out ! i) = Some (s_InvoiceNumber s) \<and>
                   (\<forall>col \<in> set revenue_columns \<inter> set (columns sales_df).
                      job_value col (rows out ! i) = sales_value col s))"
    proof (cases "find (\<lambda>s. sales_key s =
                               (j_TechCode (rows jobs_df ! i), py_strip (j_JobNumber (rows jobs_df ! i))))
                      (rows sales_df)")
      case None
      then have r: "r = unmatched_row mc j" unfolding r_def k by simp
      show ?thesis unfolding None option.case using fields in_mc
        by (simp add: r k unmatched_row_fields job_value_unmatched)
    next
      case (Some s)
      then have r: "r = joined_row mc j (g s)" unfolding r_def k by simp
      show ?thesis unfolding Some option.case using fields in_mc
        by (simp add: r k joined_row_fields job_value_joined g_value g_fields)
    qed
  qed
  from out len row show ?thesis by blast
qed

text \<open>
  Claim C2. Two sales rows of technician JS for the invoice 1001, the first stored with a
  leading space: \<open>drop_duplicates\<close> compares the stored values and keeps both, the exact path
  then trims the invoice numbers, and both rows reach the join under the key (JS, 1001).
  The one job of JS with the number 1001 comes out twice, once with each labor amount.
  When the two rows are stored alike, the first alone reaches the join.
\<close>

theorem merge_sales_with_jobs_untrimmed_duplicates:
  "deduplicated_sales_rows [''TechCode'', ''JobNumber''] example_sales_untrimmed =
     [example_sale ''JS'' '' 1001'' 50, example_sale ''JS'' ''1001'' 70] \<and>
   py_strip '' 1001'' = ''1001'' \<and>
   merge_sales_with_jobs (example_jobs [''TechCode'', ''JobNumber''] [(''JS'', ''1001'')])
      example_sales_untrimmed =
     Inr \<lparr>columns = [''TechCode'', ''JobNumber'', ''InvoiceNumber'', ''LaborSold''],
          rows = [example_jobs_row ''JS'' ''1001'' (Some 50) (Some ''1001''),
                  example_jobs_row ''JS'' ''1001'' (Some 70) (Some ''1001'')]\<rparr> \<and>
   merge_sales_with_jobs (example_jobs [''TechCode'', ''JobNumber''] [(''JS'', ''1001'')])
      example_sales =
     Inr \<lparr>columns = [''TechCode'', ''JobNumber'', ''InvoiceNumber'', ''LaborSold''],
          rows = [example_jobs_row ''JS'' ''1001'' (Some 50) (Some ''1001'')]\<rparr>"
  by (simp add: merge_eval deduplicated_sales_rows_def example_sales_untrimmed_def py_strip_def
      is_space_def whitespace_def)

section \<open>Properties of parse\_duration\<close>

text \<open>
  Claim C9. \<open>parse_duration\<close> returns 0 for an empty or missing value and the seconds of a
  well-formed string, but a part that is no number raises \<open>ValueError\<close> to the caller;
  the loader's \<open>convert_duration_to_seconds\<close> returns 0 on the same input.
\<close>

theorem parse_duration_raises:
  "parse_duration (Some ''abc'') = Inl ValueError \<and>
   parse_duration (Some ''1:xx:00'') = Inl ValueError \<and>
   parse_duration (Some ''2:30:45'') = Inr 9045 \<and>
   parse_duration (Some []) = Inr 0 \<and>
   parse_duration None = Inr 0 \<and>
   convert_duration_to_seconds (Some ''abc'') = 0 \<and>
   convert_duration_to_seconds (Some ''2:30:45'') = 9045"
  by code_simp

section \<open>Properties of calculate\_driving\_metrics\<close>

text \<open>
  The bins handed to \<open>pd.cut\<close> are 0, the thresholds in the order of the dictionary
  (90, 75, 60, 40, 0) and 100: they decrease, and \<open>pd.cut\<close> raises whatever the scores are.
\<close>

lemma pd_cut_driving_bins: "pd_cut xs driving_bins driving_labels = Inl ValueError"
  by (simp add: pd_cut_def driving_bins_def DRIVING_SCORE_THRESHOLDS_def)

text \<open>So the function never returns a row with a driving score or a category.\<close>

lemma calculate_driving_metrics_never_scores:
  "(case calculate_driving_metrics tech_df alert_df of
      Inl e \<Rightarrow> True
    | Inr result \<Rightarrow> list_all (\<lambda>r. d_DrivingScore r = None \<and> d_DrivingCategory r = None) result)"
  by (auto simp: calculate_driving_metrics_def Let_def pd_cut_driving_bins list_all_iff
      split: sum.splits prod.splits)

text \<open>
  Claim C5. Technician JS has no alert and technician JD has one alert of a weighted type:
  the function raises \<open>ValueError\<close> instead of a score of 100 and the category EXCELLENT
  for JS, and so it does for a frame with no alert at all. A weighted score of 0 would give
  the driving score 100, but the category assignment raises on it.
\<close>

theorem calculate_driving_metrics_raises:
  "calculate_driving_metrics example_tech_df example_alert_df = Inl ValueError \<and>
   calculate_driving_metrics example_tech_df (example_alert_df\<lparr>rows := []\<rparr>) = Inl ValueError \<and>
   driving_bins = [0, 90, 75, 60, 40, 0, 100] \<and>
   driving_score 0 = 100 \<and>
   pd_cut [driving_score 0] driving_bins driving_labels = Inl ValueError"
  by code_simp

section \<open>Properties of extract\_cancellation\_reason\<close>

lemma map_of_cm_in:
  "distinct (map fst table) \<Longrightarrow>
   map_of (category_matches_in table d) c =
     (case map_of table c of None \<Rightarrow> None
      | Some kws \<Rightarrow> if kws \<noteq> [] \<and> 0 < keyword_hits kws d then Some (keyword_hits kws d) else None)"
proof (induction table)
  case Nil
  then show ?case by (simp add: category_matches_in_def)
next
  case (Cons a table)
  obtain k v where a: "a = (k, v)" by (cases a)
  have ih: "map_of (category_matches_in table d) c =
     (case map_of table c of None \<Rightarrow> None
      | Some kws \<Rightarrow> if kws \<noteq> [] \<and> 0 < keyword_hits kws d then Some (keyword_hits kws d) else None)"
    using Cons by simp
  have step: "category_matches_in (a # table) d =
     (if v \<noteq> [] \<and> 0 < keyword_hits v d then [(k, keyword_hits v d)] else []) @ category_matches_in table d"
    by (simp add: category_matches_in_def a)
  have notin: "map_of table k = None"
    using Cons.prems a by (simp add: map_of_eq_None_iff)
  show ?case
    unfolding step using ih notin by (auto simp: a split: option.splits)
qed

lemma distinct_keys: "distinct (map fst CANCEL_CATEGORIES)"
  by (simp add: CANCEL_CATEGORIES_def)

lemma hits_empty: "keyword_hits [] d = 0" by (simp add: keyword_hits_def)

lemma map_of_cm:
  "map_of (category_matches (py_lower text)) c =
     (if 0 < category_hits c text then Some (category_hits c text) else None)"
  unfolding category_matches_def category_hits_def keywords_of_def
  by (simp add: map_of_cm_in[OF distinct_keys] hits_empty split: option.splits)

lemma priority_pick_first:
  "map_of cm c \<noteq> None \<Longrightarrow> c \<in> set ps \<Longrightarrow>
   \<exists>pre c' post m. ps = pre @ c' # post \<and> (\<forall>x \<in> set pre. map_of cm x = None) \<and>
      map_of cm c' = Some m \<and> priority_pick cm ps = Some (c', confidence_of c' m)"
proof (induction ps)
  case Nil
  then show ?case by simp
next
  case (Cons p ps)
  show ?case
  proof (cases "map_of cm p")
    case (Some m)
    then have "p # ps = [] @ p # ps \<and> (\<forall>x \<in> set []. map_of cm x = None) \<and>
      map_of cm p = Some m \<and> priority_pick cm (p # ps) = Some (p, confidence_of p m)"
      by simp
    then show ?thesis by blast
  next
    case None
    then have "c \<in> set ps" using Cons.prems by auto
    from Cons.IH[OF Cons.prems(1) this] obtain pre c' post m where
      h: "ps = pre @ c' # post" "\<forall>x \<in> set pre. map_of cm x = None"
         "map_of cm c' = Some m" "priority_pick cm ps = Some (c', confidence_of c' m)"
      by blast
    have "p # ps = (p # pre) @ c' # post \<and> (\<forall>x \<in> set (p # pre). map_of cm x = None) \<and>
      map_of cm c' = Some m \<and> priority_pick cm (p # ps) = Some (c', confidence_of c' m)"
      using h None by simp
    then show ?thesis by blast
  qed
qed

lemma two_keys_length:
  "map_of cm a \<noteq> None \<Longrightarrow> map_of cm b \<noteq> None \<Longrightarrow> a \<noteq> b \<Longrightarrow> 1 < length cm"
proof -
  assume h: "map_of cm a \<noteq> None" "map_of cm b \<noteq> None" "a \<noteq> b"
  then have "a \<in> fst ` set cm" "b \<in> fst ` set cm"
    by (auto simp: map_of_eq_None_iff)
  then have "{a, b} \<subseteq> set (map fst cm)" by auto
  then have "card {a, b} \<le> card (set (map fst cm))"
    by (intro card_mono) auto
  also have "\<dots> \<le> length (map fst cm)" by (rule card_length)
  finally show ?thesis using h(3) by simp
qed

lemma keywords_of_cases:
  "keywords_of c \<noteq> [] \<Longrightarrow> c \<in> set CATEGORY_PRIORITY"
  by (simp add: keywords_of_def CANCEL_CATEGORIES_def CATEGORY_PRIORITY_def split: if_splits)

lemma hits_pos_priority: "0 < category_hits c text \<Longrightarrow> c \<in> set CATEGORY_PRIORITY"
proof -
  assume "0 < category_hits c text"
  then have "keywords_of c \<noteq> []"
    by (auto simp: category_hits_def keyword_hits_def)
  then show ?thesis by (rule keywords_of_cases)
qed

lemma py_lower_nonempty: "s \<noteq> [] \<Longrightarrow> py_lower s \<noteq> []"
  by (simp add: py_lower_def)

lemma keywords_nonempty: "kw \<in> set (keywords_of c) \<Longrightarrow> kw \<noteq> []"
  by (auto simp: keywords_of_def CANCEL_CATEGORIES_def split: if_splits)

lemma hits_pos_text: "0 < category_hits c text \<Longrightarrow> text \<noteq> []"
proof
  assume h: "0 < category_hits c text" and e: "text = []"
  from h obtain kw where kw: "kw \<in> set (keywords_of c)" "py_in (py_lower kw) (py_lower text)"
    by (auto simp: category_hits_def keyword_hits_def filter_empty_conv)
  from kw(2) e have "py_lower kw = []" by (simp add: py_lower_def)
  then have "kw = []" by (simp add: py_lower_def)
  with keywords_nonempty[OF kw(1)] show False by simp
qed

text \<open>
  Claim C6. When keywords of two different categories occur in a description, the result is
  the category that comes first in \<open>CATEGORY_PRIORITY\<close> among those with a hit (every
  category before it has no hit; hit counts are never compared), and the confidence is
  \<open>min (hits / number of keywords, 1)\<close> of that category alone.
\<close>

theorem extract_cancellation_reason_priority:
  assumes "c1 \<noteq> c2" and "0 < category_hits c1 text" and "0 < category_hits c2 text"
  shows "\<exists>pre c post.
           CATEGORY_PRIORITY = pre @ c # post \<and>
           (\<forall>c' \<in> set pre. category_hits c' text = 0) \<and>
           0 < category_hits c text \<and>
           extract_cancellation_reason (Some text) =
             (c, min (of_nat (category_hits c text) / of_nat (length (keywords_of c))) 1)"
proof -
  let ?cm = "category_matches (py_lower text)"
  have k1: "map_of ?cm c1 \<noteq> None" and k2: "map_of ?cm c2 \<noteq> None"
    using assms by (simp_all add: map_of_cm)
  have len: "1 < length ?cm" using two_keys_length[OF k1 k2 assms(1)] .
  then have ne: "?cm \<noteq> []" by auto
  have nonempty: "text \<noteq> []" using hits_pos_text[OF assms(2)] .
  from priority_pick_first[OF k1 hits_pos_priority[OF assms(2)]]
  obtain pre c post m where
    h: "CATEGORY_PRIORITY = pre @ c # post" "\<forall>x \<in> set pre. map_of ?cm x = None"
       "map_of ?cm c = Some m" "priority_pick ?cm CATEGORY_PRIORITY = Some (c, confidence_of c m)"
    by blast
  from h(3) have m: "m = category_hits c text" and pos: "0 < category_hits c text"
    by (simp_all add: map_of_cm split: if_splits)
  from h(2) have zero: "\<forall>c' \<in> set pre. category_hits c' text = 0"
    by (simp add: map_of_cm split: if_splits)
  have res: "extract_cancellation_reason (Some text) =
      (c, min (of_nat (category_hits c text) / of_nat (length (keywords_of c))) 1)"
    using nonempty ne len h(4) by (simp add: extract_cancellation_reason_def Let_def confidence_of_def m)
  from h(1) zero pos res show ?thesis by blast
qed

lemma hits_example:
  "category_hits ''CUSTOMER_INITIATED'' ''customer cancel due to price too high'' = 1"
  "category_hits ''PRICE_TOO_HIGH'' ''customer cancel due to price too high'' = 1"
  by code_simp+

lemma keywords_of_customer_initiated:
  "length (keywords_of ''CUSTOMER_INITIATED'') = 6"
  by (simp add: keywords_of_def CANCEL_CATEGORIES_def)

text \<open>
  The description "customer cancel due to price too high" has one hit in CUSTOMER\_INITIATED
  and one in PRICE\_TOO\_HIGH; the theorem gives CUSTOMER\_INITIATED, the first of the
  priority list, with confidence 1/6.
\<close>

theorem extract_cancellation_reason_priority_witness:
  "category_hits ''CUSTOMER_INITIATED'' ''customer cancel due to price too high'' = 1 \<and>
   category_hits ''PRICE_TOO_HIGH'' ''customer cancel due to price too high'' = 1 \<and>
   extract_cancellation_reason (Some ''customer cancel due to price too high'') =
     (''CUSTOMER_INITIATED'', 1 / 6)"
proof -
  let ?t = "''customer cancel due to price too high''"
  have a: "''CUSTOMER_INITIATED'' \<noteq> ''PRICE_TOO_HIGH''" by simp
  have b: "0 < category_hits ''CUSTOMER_INITIATED'' ?t" by (simp add: hits_example)
  have c: "0 < category_hits ''PRICE_TOO_HIGH'' ?t" by (simp add: hits_example)
  from extract_cancellation_reason_priority[OF a b c]
  obtain pre c post where
    h: "CATEGORY_PRIORITY = pre @ c # post" "\<forall>c' \<in> set pre. category_hits c' ?t = 0"
       "extract_cancellation_reason (Some ?t) =
          (c, min (of_nat (category_hits c ?t) / of_nat (length (keywords_of c))) 1)"
    by blast
  have "pre = []"
  proof (cases pre)
    case Nil
    then show ?thesis .
  next
    case (Cons p ps)
    with h(1) have "p = ''CUSTOMER_INITIATED''" by (simp add: CATEGORY_PRIORITY_def)
    with h(2) Cons b show ?thesis by simp
  qed
  with h(1) have "c = ''CUSTOMER_INITIATED''" by (simp add: CATEGORY_PRIORITY_def)
  with h(3) have "extract_cancellation_reason (Some ?t) = (''CUSTOMER_INITIATED'', 1 / 6)"
    by (simp add: hits_example keywords_of_customer_initiated)
  then show ?thesis by (simp add: hits_example)
qed

section \<open>Properties of extract\_cancellation\_reasons\_from\_df\<close>

subsection \<open>The steps of the function\<close>

lemma with_reason_columns_length [simp]:
  "length (rows (with_reason_columns df)) = length (rows df)"
  by (simp add: with_reason_columns_def Let_def)

lemma with_reason_columns_Nil [simp]:
  "rows (with_reason_columns df) = [] \<longleftrightarrow> rows df = []"
  by (simp add: with_reason_columns_def Let_def)

lemma with_reason_columns_cols [simp]:
  "c \<in> set (columns (with_reason_columns df)) \<longleftrightarrow>
   c \<in> set (columns df) \<or> c = ''CancellationReason'' \<or> c = ''CancellationConfidence''"
  by (auto simp add: with_reason_columns_def Let_def)

lemma with_reason_columns_row:
  "i < length (rows df) \<Longrightarrow>
   rows (with_reason_columns df) ! i =
     (rows df ! i)
       \<lparr>r_CancellationReason :=
          (if ''CancellationReason'' \<in> set (columns df) then r_CancellationReason (rows df ! i)
           else ''NOT_CANCELED''),
        r_CancellationConfidence :=
          (if ''CancellationConfidence'' \<in> set (columns df)
           then r_CancellationConfidence (rows df ! i) else 0)\<rparr>"
  by (simp add: with_reason_columns_def Let_def)

text \<open>A draw of distinct positions marks as many rows as it has positions.\<close>

lemma count_chosen:
  assumes "distinct cs" and "set cs \<subseteq> {..< n}"
  shows "length (filter (\<lambda>b. b) (map (\<lambda>i. i \<in> set cs) [0 ..< n])) = length cs"
proof -
  have "length (filter (\<lambda>b. b) (map (\<lambda>i. i \<in> set cs) [0 ..< n])) =
        length (filter (\<lambda>i. i \<in> set cs) [0 ..< n])"
    by (simp add: filter_map comp_def)
  also have "\<dots> = card {i. i < n \<and> i \<in> set cs}"
    by (simp add: length_filter_conv_card cong: conj_cong)
  also have "{i. i < n \<and> i \<in> set cs} = set cs" using assms(2) by auto
  also have "card (set cs) = length cs" using assms(1) by (rule distinct_card)
  finally show ?thesis .
qed

text \<open>
  The mask is the draw when the frame has rows and an indicator column and no row shows an
  indicator; in every other case it does not depend on the draw.
\<close>

lemma canceled_mask_drawn:
  assumes "rows df \<noteq> []" and "has_indicator_column (columns df)"
    and "\<forall>r \<in> set (rows df). \<not> shows_indicator (columns df) r"
  shows "canceled_mask random_choice df =
     Some (map (\<lambda>i. i \<in> set (random_choice (length (rows df)) (max 1 (length (rows df) div 20))))
             [0 ..< length (rows df)])"
proof -
  have "filter (\<lambda>b. b) (map (shows_indicator (columns df)) (rows df)) = []"
    using assms(3) by (simp add: filter_empty_conv)
  then show ?thesis using assms(1,2) by (simp add: canceled_mask_def Let_def)
qed


text \<open>The output for a given mask.\<close>

lemma extract_with_mask:
  assumes "canceled_mask random_choice df = Some m" and "length m = length (rows df)"
  shows "columns (extract_cancellation_reasons_from_df random_choice df) =
           (if ''CancellationRate'' \<in> set (columns (with_reason_columns df))
            then columns (with_reason_columns df)
            else columns (with_reason_columns df) @ [''CancellationRate''])"
    and "length (rows (extract_cancellation_reasons_from_df random_choice df)) = length (rows df)"
    and "i < length (rows df) \<Longrightarrow>
         rows (extract_cancellation_reasons_from_df random_choice df) ! i =
           (classify_row (columns (with_reason_columns df)) (rows (with_reason_columns df) ! i, m ! i))
             \<lparr>r_CancellationRate :=
                Some (of_nat (length (filter (\<lambda>b. b) m)) / of_nat (length (rows df)))\<rparr>"
  using assms by (auto simp add: extract_cancellation_reasons_from_df_def Let_def)


text \<open>The loop body on a row: the reason and confidence of its description when it is marked.\<close>

lemma classify_row_cases:
  "classify_row cols (r, b) =
     (if b \<and> ''WorkDescription'' \<in> set cols
      then r\<lparr>r_CancellationReason := fst (extract_cancellation_reason (r_WorkDescription r)),
             r_CancellationConfidence := snd (extract_cancellation_reason (r_WorkDescription r))\<rparr>
      else r)"
  by (simp add: classify_row_def split: prod.splits)

subsection \<open>Fabricated cancellations\<close>

text \<open>
  Claim C10, as amended. Let the job table have at least one row and at least one of the
  columns JobCanceled, Status and WorkDescription, let no row show a cancellation indicator,
  and let the draw of \<open>np.random.choice\<close> be \<open>k = max 1 (n div 20)\<close> distinct positions of
  the \<open>n\<close> rows. Then the mask marks exactly the \<open>k\<close> drawn rows as canceled, the output
  has the column CancellationRate, and every row of the output is the input row with the
  rate \<open>k / n\<close>, which is positive, and with the reason and confidence that
  \<open>extract_cancellation_reason\<close> gives its description if the row is drawn and the frame
  has a WorkDescription column; a row not drawn keeps its reason and confidence
  (NOT\_CANCELED and 0 when the frame had no such column).
\<close>

theorem extract_cancellation_reasons_from_df_fabricates:
  fixes df :: "'a cancel_row_scheme table"
  assumes nonempty: "rows df \<noteq> []"
    and indicator_column:
      "''JobCanceled'' \<in> set (columns df) \<or> ''Status'' \<in> set (columns df) \<or>
       ''WorkDescription'' \<in> set (columns df)"
    and no_indicator: "\<forall>r \<in> set (rows df). \<not> shows_indicator (columns df) r"
    and draw_distinct: "distinct (random_choice (length (rows df)) (max 1 (length (rows df) div 20)))"
    and draw_size:
      "length (random_choice (length (rows df)) (max 1 (length (rows df) div 20))) =
         max 1 (length (rows df) div 20)"
    and draw_index:
      "set (random_choice (length (rows df)) (max 1 (length (rows df) div 20)))
         \<subseteq> {..< length (rows df)}"
  shows "let n = length (rows df);
             k = max 1 (n div 20);
             chosen = set (random_choice n k);
             out = extract_cancellation_reasons_from_df random_choice df
         in card chosen = k \<and>
            canceled_mask random_choice df = Some (map (\<lambda>i. i \<in> chosen) [0 ..< n]) \<and>
            ''CancellationRate'' \<in> set (columns out) \<and>
            length (rows out) = n \<and>
            (0::rat) < of_nat k / of_nat n \<and>
            (\<forall>i < n.
               rows out ! i =
                 (rows df ! i)
                   \<lparr>r_CancellationReason :=
                      (if i \<in> chosen \<and> ''WorkDescription'' \<in> set (columns df)
                       then fst (extract_cancellation_reason (r_WorkDescription (rows df ! i)))
                       else if ''CancellationReason'' \<in> set (columns df)
                       then r_CancellationReason (rows df ! i)
                       else ''NOT_CANCELED''),
                    r_CancellationConfidence :=
                      (if i \<in> chosen \<and> ''WorkDescription'' \<in> set (columns df)
                       then snd (extract_cancellation_reason (r_WorkDescription (rows df ! i)))
                       else if ''CancellationConfidence'' \<in> set (columns df)
                       then r_CancellationConfidence (rows df ! i)
                       else 0),
                    r_CancellationRate := Some (of_nat k / of_nat n)\<rparr>)"
proof -
  let ?n = "length (rows df)"
  let ?k = "max 1 (?n div 20)"
  let ?cs = "random_choice ?n ?k"
  let ?m = "map (\<lambda>i. i \<in> set ?cs) [0 ..< ?n]"
  let ?out = "extract_cancellation_reasons_from_df random_choice df"
  have ind: "has_indicator_column (columns df)"
    using indicator_column by (simp add: has_indicator_column_def)
  have pos: "0 < ?n" using nonempty by simp
  have card: "card (set ?cs) = ?k"
    using distinct_card[OF draw_distinct] draw_size by simp
  have m: "canceled_mask random_choice df = Some ?m"
    by (rule canceled_mask_drawn[OF nonempty ind no_indicator])
  have lm: "length ?m = ?n" by simp
  have count: "length (filter (\<lambda>b. b) ?m) = ?k"
    using count_chosen[OF draw_distinct draw_index] draw_size by simp
  have cols: "''CancellationRate'' \<in> set (columns ?out)"
    by (simp add: extract_with_mask(1)[OF m lm])
  have len: "length (rows ?out) = ?n"
    by (rule extract_with_mask(2)[OF m lm])
  have rate: "(0::rat) < of_nat ?k / of_nat ?n"
    using pos by simp
  have row: "\<forall>i < ?n.
               rows ?out ! i =
                 (rows df ! i)
                   \<lparr>r_CancellationReason :=
                      (if i \<in> set ?cs \<and> ''WorkDescription'' \<in> set (columns df)
                       then fst (extract_cancellation_reason (r_WorkDescription (rows df ! i)))
                       else if ''CancellationReason'' \<in> set (columns df)
                       then r_CancellationReason (rows df ! i)
                       else ''NOT_CANCELED''),
                    r_CancellationConfidence :=
                      (if i \<in> set ?cs \<and> ''WorkDescription'' \<in> set (columns df)
                       then snd (extract_cancellation_reason (r_WorkDescription (rows df ! i)))
                       else if ''CancellationConfidence'' \<in> set (columns df)
                       then r_CancellationConfidence (rows df ! i)
                       else 0),
                    r_CancellationRate := Some (of_nat ?k / of_nat ?n)\<rparr>"
  proof (intro allI impI)
    fix i assume i: "i < ?n"
    then have mi: "?m ! i = (i \<in> set ?cs)" by simp
    show "rows ?out ! i =
                 (rows df ! i)
                   \<lparr>r_CancellationReason :=
                      (if i \<in> set ?cs \<and> ''WorkDescription'' \<in> set (columns df)
                       then fst (extract_cancellation_reason (r_WorkDescription (rows df ! i)))
                       else if ''CancellationReason'' \<in> set (columns df)
                       then r_CancellationReason (rows df ! i)
                       else ''NOT_CANCELED''),
                    r_CancellationConfidence :=
                      (if i \<in> set ?cs \<and> ''WorkDescription'' \<in> set (columns df)
                       then snd (extract_cancellation_reason (r_WorkDescription (rows df ! i)))
                       else if ''CancellationConfidence'' \<in> set (columns df)
                       then r_CancellationConfidence (rows df ! i)
                       else 0),
                    r_CancellationRate := Some (of_nat ?k / of_nat ?n)\<rparr>"
      unfolding extract_with_mask(3)[OF m lm i] count mi classify_row_cases
        with_reason_columns_row[OF i]
      by simp
  qed
  from card m cols len rate row show ?thesis unfolding Let_def by blast
qed

text \<open>The descriptions of the examples, and the indicators their rows show.\<close>

lemma example_reasons:
  "extract_cancellation_reason (Some ''replaced pump, billed service'') = (''PAYMENT_ISSUE'', 1 / 4)"
  "extract_cancellation_reason (Some ''no issue found'') = (''OTHER'', 0)"
  "extract_cancellation_reason (Some ''Customer cancel - price too high'') =
     (''CUSTOMER_INITIATED'', 1 / 6)"
  by code_simp+

lemma example_indicators:
  "map (shows_indicator [''WorkDescription''])
     (rows (example_cancel_df [''WorkDescription'']
        [''replaced pump, billed service'', ''no issue found''])) = [False, False]"
  "map (shows_indicator [''WorkDescription''])
     (rows (example_cancel_df [''WorkDescription'']
        [''Customer cancel - price too high'', ''no issue found''])) = [True, False]"
  "map (shows_indicator [''TechCode''])
     (rows (example_cancel_df [''TechCode'']
        [''replaced pump, billed service'', ''no issue found''])) = [False, False]"
  by code_simp+

text \<open>
  Claim C10 as stated fails for a table that has none of the three indicator columns: no
  row of it shows an indicator, but the function returns after adding the reason and the
  confidence columns. No row is marked, whatever the draw, and there is no cancellation
  rate.
\<close>

theorem extract_cancellation_reasons_from_df_no_indicator_column:
  "rows (example_cancel_df [''TechCode''] [''replaced pump, billed service'', ''no issue found''])
     \<noteq> [] \<and>
   map (shows_indicator [''TechCode''])
     (rows (example_cancel_df [''TechCode'']
        [''replaced pump, billed service'', ''no issue found''])) = [False, False] \<and>
   extract_cancellation_reasons_from_df draw_first
     (example_cancel_df [''TechCode''] [''replaced pump, billed service'', ''no issue found'']) =
     \<lparr>columns = [''TechCode'', ''CancellationReason'', ''CancellationConfidence''],
      rows = [example_cancel_result ''replaced pump, billed service'' ''NOT_CANCELED'' 0 None,
              example_cancel_result ''no issue found'' ''NOT_CANCELED'' 0 None]\<rparr> \<and>
   extract_cancellation_reasons_from_df draw_last
     (example_cancel_df [''TechCode''] [''replaced pump, billed service'', ''no issue found'']) =
     \<lparr>columns = [''TechCode'', ''CancellationReason'', ''CancellationConfidence''],
      rows = [example_cancel_result ''replaced pump, billed service'' ''NOT_CANCELED'' 0 None,
              example_cancel_result ''no issue found'' ''NOT_CANCELED'' 0 None]\<rparr>"
  by code_simp

text \<open>
  The theorem at a table of two jobs without an indicator and the draw of the last
  position: the second job is marked and classified OTHER, and both rows report a
  cancellation rate of one half.
\<close>

theorem extract_cancellation_reasons_from_df_fabricates_witness:
  "rows (example_cancel_df [''WorkDescription''] [''replaced pump, billed service'', ''no issue found''])
     \<noteq> [] \<and>
   ''WorkDescription'' \<in> set (columns
      (example_cancel_df [''WorkDescription''] [''replaced pump, billed service'', ''no issue found''])) \<and>
   map (shows_indicator [''WorkDescription''])
     (rows (example_cancel_df [''WorkDescription'']
        [''replaced pump, billed service'', ''no issue found''])) = [False, False] \<and>
   draw_last 2 1 = [1] \<and>
   rows (extract_cancellation_reasons_from_df draw_last
     (example_cancel_df [''WorkDescription''] [''replaced pump, billed service'', ''no issue found''])) =
     [example_cancel_result ''replaced pump, billed service'' ''NOT_CANCELED'' 0 (Some (1 / 2)),
      example_cancel_result ''no issue found'' ''OTHER'' 0 (Some (1 / 2))]"
proof -
  let ?df = "example_cancel_df [''WorkDescription'']
               [''replaced pump, billed service'', ''no issue found'']"
  let ?out = "extract_cancellation_reasons_from_df draw_last ?df"
  have cols: "columns ?df = [''WorkDescription'']"
    by (simp add: example_cancel_df_def)
  have n: "length (rows ?df) = 2"
    by (simp add: example_cancel_df_def)
  have k: "max 1 (2 div 20) = (1::nat)" by simp
  have d: "draw_last 2 1 = [1]" by (simp add: draw_last_def upt_rec)
  have ne: "rows ?df \<noteq> []" by (simp add: example_cancel_df_def)
  have ic: "''JobCanceled'' \<in> set (columns ?df) \<or> ''Status'' \<in> set (columns ?df) \<or>
       ''WorkDescription'' \<in> set (columns ?df)"
    by (simp add: cols)
  have "list_all (\<lambda>b. \<not> b) (map (shows_indicator [''WorkDescription'']) (rows ?df))"
    by (simp only: example_indicators) simp
  then have no: "\<forall>r \<in> set (rows ?df). \<not> shows_indicator (columns ?df) r"
    by (simp add: list_all_iff cols)
  have h1: "distinct (draw_last (length (rows ?df)) (max 1 (length (rows ?df) div 20)))"
    and h2: "length (draw_last (length (rows ?df)) (max 1 (length (rows ?df) div 20))) =
         max 1 (length (rows ?df) div 20)"
    and h3: "set (draw_last (length (rows ?df)) (max 1 (length (rows ?df) div 20)))
         \<subseteq> {..< length (rows ?df)}"
    unfolding n k d by simp_all
  note inst = extract_cancellation_reasons_from_df_fabricates
      [where df = ?df and random_choice = draw_last, OF ne ic no h1 h2 h3,
       unfolded Let_def n k d cols]
  have r: "rows ?df = [example_cancel_row ''replaced pump, billed service'',
                        example_cancel_row ''no issue found'']"
    by (simp add: example_cancel_df_def)
  from inst have len: "length (rows ?out) = 2" by blast
  from inst have "rows ?out ! 0 =
      example_cancel_result ''replaced pump, billed service'' ''NOT_CANCELED'' 0 (Some (1 / 2))"
    by (simp add: r example_cancel_row_def example_cancel_result_def)
  moreover from inst have "rows ?out ! 1 =
      example_cancel_result ''no issue found'' ''OTHER'' 0 (Some (1 / 2))"
    by (simp add: r example_cancel_row_def example_cancel_result_def example_reasons)
  ultimately have "rows ?out =
     [example_cancel_result ''replaced pump, billed service'' ''NOT_CANCELED'' 0 (Some (1 / 2)),
      example_cancel_result ''no issue found'' ''OTHER'' 0 (Some (1 / 2))]"
    using len by (intro nth_equalityI) (auto simp add: less_Suc_eq numeral_2_eq_2)
  with ne d show ?thesis by (simp only: cols example_indicators) simp
qed

subsection \<open>Two runs on one input\<close>





end
